theory Spec2Isabelle
  imports Complex_Main
begin

unbundle bit_operations_syntax

section \<open>Python values, errors and small helpers\<close>

text \<open>
  Python floats are idealised as real numbers: every arithmetic operation is the exact
  one. Python's unbounded integers are \<open>int\<close>. A \<open>str\<close> is a list of characters, each
  character standing for the code point of the same number (code points above 255 are
  outside the model).
\<close>

datatype py_error =
    KeyError | TypeError | ValueError | ZeroDivisionError | IntegrityError | OverflowError

datatype jvalue = JNull | JBool bool | JInt int | JFloat real | JStr string

type_synonym pydict = "(string \<times> jvalue) list"

text \<open>\<open>d[k] = v\<close>: an existing key keeps its position, a new key goes to the end.\<close>

fun dict_set :: "('k \<times> 'v) list \<Rightarrow> 'k \<Rightarrow> 'v \<Rightarrow> ('k \<times> 'v) list" where
  "dict_set [] k v = [(k, v)]"
| "dict_set ((k', v') # d) k v =
     (if k' = k then (k, v) # d else (k', v') # dict_set d k v)"

text \<open>\<open>d.get(k)\<close> is \<open>map_of d k\<close>; \<open>d.get(k, dflt)\<close> and \<open>d[k]\<close> follow.\<close>

definition dict_get_default :: "('k \<times> 'v) list \<Rightarrow> 'k \<Rightarrow> 'v \<Rightarrow> 'v" where
  "dict_get_default d k dflt = (case map_of d k of None \<Rightarrow> dflt | Some v \<Rightarrow> v)"

definition dict_index :: "('k \<times> 'v) list \<Rightarrow> 'k \<Rightarrow> py_error + 'v" where
  "dict_index d k = (case map_of d k of None \<Rightarrow> Inl KeyError | Some v \<Rightarrow> Inr v)"

text \<open>\<open>del d[k]\<close> for a key that is present.\<close>

definition dict_del :: "('k \<times> 'v) list \<Rightarrow> 'k \<Rightarrow> ('k \<times> 'v) list" where
  "dict_del d k = filter (\<lambda>kv. fst kv \<noteq> k) d"

text \<open>Truth value of an object in a condition (\<open>if x:\<close>).\<close>

fun truthy :: "jvalue \<Rightarrow> bool" where
  "truthy JNull = False"
| "truthy (JBool b) = b"
| "truthy (JInt i) = (i \<noteq> 0)"
| "truthy (JFloat x) = (x \<noteq> 0)"
| "truthy (JStr s) = (s \<noteq> [])"

text \<open>\<open>int(x)\<close> on a float truncates towards zero.\<close>

definition py_int :: "real \<Rightarrow> int" where
  "py_int x = (if 0 \<le> x then \<lfloor>x\<rfloor> else \<lceil>x\<rceil>)"

text \<open>Rounding to the nearest integer, ties to the even one, and \<open>round(x, n)\<close>.\<close>

definition round_pick :: "int \<Rightarrow> real \<Rightarrow> int" where
  "round_pick f y =
     (if y - of_int f < 1 / 2 then f else if 1 / 2 < y - of_int f then f + 1
      else if even f then f else f + 1)"

definition round_half_even :: "real \<Rightarrow> int" where
  "round_half_even y = round_pick \<lfloor>y\<rfloor> y"

definition py_round :: "real \<Rightarrow> nat \<Rightarrow> real" where
  "py_round x n = of_int (round_half_even (x * 10 ^ n)) / 10 ^ n"

text \<open>
  A field that is a number, an \<open>int\<close> or a \<open>float\<close>: its value, and \<open>round(v, n)\<close> on
  it as \<open>json.dumps\<close> then sees it (an int stays an int).
\<close>

datatype py_number = PyInt int | PyFloat real

fun number_value :: "py_number \<Rightarrow> real" where
  "number_value (PyInt i) = of_int i"
| "number_value (PyFloat x) = x"

fun round_number :: "py_number \<Rightarrow> nat \<Rightarrow> jvalue" where
  "round_number (PyInt i) n = JInt i"
| "round_number (PyFloat x) n = JFloat (py_round x n)"

text \<open>\<open>round(v, n)\<close> on a dynamically typed value: an int stays an int, a bool becomes
  an int, anything that is not a number raises \<open>TypeError\<close>.\<close>

fun jround :: "jvalue \<Rightarrow> nat \<Rightarrow> py_error + jvalue" where
  "jround (JFloat x) n = Inr (JFloat (py_round x n))"
| "jround (JInt i) n = Inr (JInt i)"
| "jround (JBool b) n = Inr (JInt (if b then 1 else 0))"
| "jround v n = Inl TypeError"

section \<open>Decimal rendering\<close>

definition digit_char :: "nat \<Rightarrow> char" where
  "digit_char n = ''0123456789'' ! n"

function dec_digits :: "int \<Rightarrow> string" where
  "dec_digits i =
     (if i < 10 then [digit_char (nat i)]
      else dec_digits (i div 10) @ [digit_char (nat (i mod 10))])"
  by pat_completeness auto
termination
  by (relation "measure nat") auto

declare dec_digits.simps [simp del]

definition str_of_int :: "int \<Rightarrow> string" where
  "str_of_int i = (if i < 0 then CHR ''-'' # dec_digits (- i) else dec_digits i)"

definition str_of_nat :: "nat \<Rightarrow> string" where
  "str_of_nat n = dec_digits (int n)"

text \<open>\<open>f"{n:05d}"\<close>: at least five digits, zero padded.\<close>

definition zero_pad :: "nat \<Rightarrow> string \<Rightarrow> string" where
  "zero_pad w s = replicate (w - length s) CHR ''0'' @ s"

definition str_of_nat_05 :: "nat \<Rightarrow> string" where
  "str_of_nat_05 n = zero_pad 5 (str_of_nat n)"

text \<open>
  The \<open>repr\<close> of a float, as \<open>json.dumps\<close> writes it. The value is taken to seventeen
  significant digits and trailing zeros are dropped, which is the shortest round-trip
  string for every float that is a decimal of at most fifteen digits. Fixed notation is
  used for decimal exponents from -4 to 15, exponent notation otherwise.
\<close>

fun dec_exp_up :: "nat \<Rightarrow> real \<Rightarrow> int" where
  "dec_exp_up 0 a = 0"
| "dec_exp_up (Suc k) a = (if a < 10 then 0 else 1 + dec_exp_up k (a / 10))"

fun dec_exp_down :: "nat \<Rightarrow> real \<Rightarrow> int" where
  "dec_exp_down 0 a = 0"
| "dec_exp_down (Suc k) a = (if 1 \<le> a then 0 else dec_exp_down k (a * 10) - 1)"

definition dec_exp :: "real \<Rightarrow> int" where
  "dec_exp a = (if 1 \<le> a then dec_exp_up 400 a else dec_exp_down 400 a)"

definition pow10 :: "int \<Rightarrow> real" where
  "pow10 e = (if 0 \<le> e then 10 ^ nat e else 1 / 10 ^ nat (- e))"

fun strip_zeros_rev :: "string \<Rightarrow> string" where
  "strip_zeros_rev [] = []"
| "strip_zeros_rev (c # cs) = (if c = CHR ''0'' then strip_zeros_rev cs else c # cs)"

definition strip_trailing_zeros :: "string \<Rightarrow> string" where
  "strip_trailing_zeros s = rev (strip_zeros_rev (rev s))"

definition float_fixed :: "int \<Rightarrow> string \<Rightarrow> string" where
  "float_fixed e ds =
     (if 0 \<le> e then
        take (nat e + 1) (ds @ replicate 17 CHR ''0'') @ ''.''
          @ (if drop (nat e + 1) ds = [] then ''0'' else drop (nat e + 1) ds)
      else ''0.'' @ replicate (nat (- e - 1)) CHR ''0'' @ ds)"

definition float_exponent :: "int \<Rightarrow> string \<Rightarrow> string" where
  "float_exponent e ds =
     take 1 ds @ (if drop 1 ds = [] then [] else ''.'' @ drop 1 ds) @ ''e''
       @ (if e < 0 then ''-'' else ''+'') @ zero_pad 2 (dec_digits \<bar>e\<bar>)"

definition float_layout :: "int \<Rightarrow> string \<Rightarrow> string" where
  "float_layout e ds =
     (if - 4 \<le> e \<and> e < 16 then float_fixed e ds else float_exponent e ds)"

definition float_norm :: "int \<Rightarrow> int \<Rightarrow> string" where
  "float_norm e0 m0 =
     (if m0 = 10 ^ 17 then float_layout (e0 + 1) ''1''
      else float_layout e0 (strip_trailing_zeros (dec_digits m0)))"

definition float_repr_abs :: "real \<Rightarrow> string" where
  "float_repr_abs a = float_norm (dec_exp a) (round_half_even (a / pow10 (dec_exp a - 16)))"

definition float_repr :: "real \<Rightarrow> string" where
  "float_repr x =
     (if x = 0 then ''0.0''
      else if x < 0 then CHR ''-'' # float_repr_abs (- x) else float_repr_abs x)"

section \<open>Canonical JSON\<close>

text \<open>
  \<open>json.dumps(data, sort_keys=True, separators=(',', ':'))\<close> on a flat dictionary with
  string keys. Strings are escaped the way the default \<open>ensure_ascii=True\<close> does.
\<close>

definition hex_char :: "nat \<Rightarrow> char" where
  "hex_char n = ''0123456789abcdef'' ! n"

definition json_escape_char :: "char \<Rightarrow> string" where
  "json_escape_char c =
     (if c = CHR ''\"'' then [CHR 0x5C, CHR ''\"'']
      else if c = CHR 0x5C then [CHR 0x5C, CHR 0x5C]
      else if c = CHR 0x0A then [CHR 0x5C, CHR ''n'']
      else if c = CHR 0x0D then [CHR 0x5C, CHR ''r'']
      else if c = CHR 0x09 then [CHR 0x5C, CHR ''t'']
      else if c = CHR 0x08 then [CHR 0x5C, CHR ''b'']
      else if c = CHR 0x0C then [CHR 0x5C, CHR ''f'']
      else if (of_char c :: nat) < 32 \<or> 126 < (of_char c :: nat)
        then [CHR 0x5C, CHR ''u'', CHR ''0'', CHR ''0'',
              hex_char (of_char c div 16), hex_char (of_char c mod 16)]
      else [c])"

definition json_string :: "string \<Rightarrow> string" where
  "json_string s = ''\"'' @ concat (map json_escape_char s) @ ''\"''"

fun json_value :: "jvalue \<Rightarrow> string" where
  "json_value JNull = ''null''"
| "json_value (JBool b) = (if b then ''true'' else ''false'')"
| "json_value (JInt i) = str_of_int i"
| "json_value (JFloat x) = float_repr x"
| "json_value (JStr s) = json_string s"

text \<open>Python orders strings by code point, lexicographically.\<close>

fun str_le :: "string \<Rightarrow> string \<Rightarrow> bool" where
  "str_le [] t = True"
| "str_le (a # s) [] = False"
| "str_le (a # s) (b # t) =
     (if (of_char a :: nat) < of_char b then True
      else if (of_char b :: nat) < of_char a then False
      else str_le s t)"

fun insert_by_key :: "(string \<times> 'v) \<Rightarrow> (string \<times> 'v) list \<Rightarrow> (string \<times> 'v) list" where
  "insert_by_key kv [] = [kv]"
| "insert_by_key kv (x # xs) =
     (if str_le (fst kv) (fst x) then kv # x # xs else x # insert_by_key kv xs)"

definition sort_by_key :: "(string \<times> 'v) list \<Rightarrow> (string \<times> 'v) list" where
  "sort_by_key d = foldr insert_by_key d []"

fun join_with :: "string \<Rightarrow> string list \<Rightarrow> string" where
  "join_with sep [] = []"
| "join_with sep [x] = x"
| "join_with sep (x # y # ys) = x @ sep @ join_with sep (y # ys)"

fun json_item :: "string \<times> jvalue \<Rightarrow> string" where
  "json_item (k, v) = json_string k @ '':'' @ json_value v"

definition json_dumps_canonical :: "pydict \<Rightarrow> string" where
  "json_dumps_canonical d = ''{'' @ join_with '','' (map json_item (sort_by_key d)) @ ''}''"

section \<open>SHA-256 and HMAC-SHA256\<close>

text \<open>
  \<open>hashlib.sha256\<close>, written out over integers with the reduction modulo \<open>2 ^ 32\<close>
  explicit. Bytes are integers from 0 to 255.
\<close>

definition w32 :: "int \<Rightarrow> int" where
  "w32 x = x mod 4294967296"

definition rotr :: "nat \<Rightarrow> int \<Rightarrow> int" where
  "rotr n x = x div 2 ^ n + (x mod 2 ^ n) * 2 ^ (32 - n)"

definition sha_ch :: "int \<Rightarrow> int \<Rightarrow> int \<Rightarrow> int" where
  "sha_ch x y z = (x AND y) XOR ((4294967295 - x) AND z)"

definition sha_maj :: "int \<Rightarrow> int \<Rightarrow> int \<Rightarrow> int" where
  "sha_maj x y z = (x AND y) XOR (x AND z) XOR (y AND z)"

definition big_sigma0 :: "int \<Rightarrow> int" where
  "big_sigma0 x = rotr 2 x XOR rotr 13 x XOR rotr 22 x"

definition big_sigma1 :: "int \<Rightarrow> int" where
  "big_sigma1 x = rotr 6 x XOR rotr 11 x XOR rotr 25 x"

definition small_sigma0 :: "int \<Rightarrow> int" where
  "small_sigma0 x = rotr 7 x XOR rotr 18 x XOR (x div 2 ^ 3)"

definition small_sigma1 :: "int \<Rightarrow> int" where
  "small_sigma1 x = rotr 17 x XOR rotr 19 x XOR (x div 2 ^ 10)"

definition sha_k :: "int list" where
  "sha_k = [
   1116352408, 1899447441, 3049323471, 3921009573, 961987163, 1508970993, 2453635748, 2870763221,
   3624381080, 310598401, 607225278, 1426881987, 1925078388, 2162078206, 2614888103, 3248222580,
   3835390401, 4022224774, 264347078, 604807628, 770255983, 1249150122, 1555081692, 1996064986,
   2554220882, 2821834349, 2952996808, 3210313671, 3336571891, 3584528711, 113926993, 338241895,
   666307205, 773529912, 1294757372, 1396182291, 1695183700, 1986661051, 2177026350, 2456956037,
   2730485921, 2820302411, 3259730800, 3345764771, 3516065817, 3600352804, 4094571909, 275423344,
   430227734, 506948616, 659060556, 883997877, 958139571, 1322822218, 1537002063, 1747873779,
   1955562222, 2024104815, 2227730452, 2361852424, 2428436474, 2756734187, 3204031479, 3329325298]"

definition sha_h0 :: "int list" where
  "sha_h0 = [1779033703, 3144134277, 1013904242, 2773480762,
             1359893119, 2600822924, 528734635, 1541459225]"

text \<open>The message schedule; \<open>ws\<close> holds the words so far, newest first.\<close>

fun sha_schedule :: "nat \<Rightarrow> int list \<Rightarrow> int list" where
  "sha_schedule 0 ws = ws"
| "sha_schedule (Suc n) ws =
     sha_schedule n
       (w32 (small_sigma1 (ws ! 1) + ws ! 6 + small_sigma0 (ws ! 14) + ws ! 15) # ws)"

fun sha_shift :: "int list \<Rightarrow> int \<Rightarrow> int \<Rightarrow> int list" where
  "sha_shift (a # b # c # d # e # f # g # h # r) t1 t2 =
     [w32 (t1 + t2), a, b, c, w32 (d + t1), e, f, g]"
| "sha_shift s t1 t2 = s"

fun sha_round :: "int list \<Rightarrow> int \<times> int \<Rightarrow> int list" where
  "sha_round (a # b # c # d # e # f # g # h # r) (k, w) =
     sha_shift (a # b # c # d # e # f # g # h # r)
       (w32 (h + big_sigma1 e + sha_ch e f g + k + w))
       (w32 (big_sigma0 a + sha_maj a b c))"
| "sha_round s kw = s"

fun add_words :: "int list \<Rightarrow> int list \<Rightarrow> int list" where
  "add_words (x # xs) (y # ys) = w32 (x + y) # add_words xs ys"
| "add_words xs ys = []"

definition sha_compress :: "int list \<Rightarrow> int list \<Rightarrow> int list" where
  "sha_compress hs blk =
     add_words hs (foldl sha_round hs (zip sha_k (rev (sha_schedule 48 (rev blk)))))"

fun be_words :: "int list \<Rightarrow> int list" where
  "be_words (a # b # c # d # rest) = (((a * 256 + b) * 256 + c) * 256 + d) # be_words rest"
| "be_words bs = []"

fun be_bytes :: "nat \<Rightarrow> int \<Rightarrow> int list" where
  "be_bytes 0 v = []"
| "be_bytes (Suc k) v = be_bytes k (v div 256) @ [v mod 256]"

definition sha_pad :: "int list \<Rightarrow> int list" where
  "sha_pad bs =
     bs @ [128] @ replicate ((119 - length bs mod 64) mod 64) 0 @ be_bytes 8 (8 * int (length bs))"

fun sha_blocks :: "nat \<Rightarrow> int list \<Rightarrow> int list list" where
  "sha_blocks 0 bs = []"
| "sha_blocks (Suc n) bs = take 64 bs # sha_blocks n (drop 64 bs)"

definition sha_absorb :: "int list \<Rightarrow> int list \<Rightarrow> int list" where
  "sha_absorb hs block = sha_compress hs (be_words block)"

definition sha_run :: "int list \<Rightarrow> int list" where
  "sha_run p = concat (map (be_bytes 4) (foldl sha_absorb sha_h0 (sha_blocks (length p div 64) p)))"

definition sha256_digest :: "int list \<Rightarrow> int list" where
  "sha256_digest bs = sha_run (sha_pad bs)"

definition hex_byte :: "int \<Rightarrow> string" where
  "hex_byte b = [hex_char (nat (b div 16)), hex_char (nat (b mod 16))]"

definition hex_of_bytes :: "int list \<Rightarrow> string" where
  "hex_of_bytes bs = concat (map hex_byte bs)"

text \<open>\<open>s.encode()\<close>: UTF-8.\<close>

definition utf8_char :: "char \<Rightarrow> int list" where
  "utf8_char c =
     (if (of_char c :: int) < 128 then [of_char c]
      else [192 + of_char c div 64, 128 + of_char c mod 64])"

definition utf8_encode :: "string \<Rightarrow> int list" where
  "utf8_encode s = concat (map utf8_char s)"

text \<open>\<open>hashlib.sha256(s.encode()).hexdigest()\<close>\<close>

definition sha256_hex :: "string \<Rightarrow> string" where
  "sha256_hex s = hex_of_bytes (sha256_digest (utf8_encode s))"

text \<open>\<open>hmac.new(key, msg, hashlib.sha256).hexdigest()\<close>\<close>

definition xor_byte :: "int \<Rightarrow> int \<Rightarrow> int" where
  "xor_byte p b = b XOR p"

definition hmac_key :: "int list \<Rightarrow> int list" where
  "hmac_key key = (if 64 < length key then sha256_digest key else key)"

definition hmac_block :: "int list \<Rightarrow> int list" where
  "hmac_block k0 = k0 @ replicate (64 - length k0) 0"

definition hmac_outer :: "int list \<Rightarrow> int list \<Rightarrow> string" where
  "hmac_outer k msg =
     hex_of_bytes (sha256_digest (map (xor_byte 92) k @ sha256_digest (map (xor_byte 54) k @ msg)))"

definition hmac_sha256_hex :: "int list \<Rightarrow> int list \<Rightarrow> string" where
  "hmac_sha256_hex key msg = hmac_outer (hmac_block (hmac_key key)) msg"

section \<open>Forensic hasher (\<open>forensic/integrity.py\<close>)\<close>

text \<open>\<open>ForensicHasher.genesis_hash\<close>: \<open>"0" * 64\<close>\<close>

definition genesis_hash :: string where
  "genesis_hash = replicate 64 CHR ''0''"

text \<open>
  \<open>ForensicHasher.hash_measurement\<close>. The arguments are dynamically typed values; of the
  additional data only the three allowed keys are copied, in the order of the list.
\<close>

definition allowed_keys :: "string list" where
  "allowed_keys = [''soil_temp_c'', ''water_potential'', ''signal_quality'']"

fun copy_allowed :: "pydict \<Rightarrow> string list \<Rightarrow> pydict \<Rightarrow> pydict" where
  "copy_allowed extra [] data = data"
| "copy_allowed extra (k # ks) data =
     copy_allowed extra ks
       (case map_of extra k of None \<Rightarrow> data | Some v \<Rightarrow> dict_set data k v)"

definition measurement_data ::
  "jvalue \<Rightarrow> jvalue \<Rightarrow> jvalue \<Rightarrow> jvalue \<Rightarrow> jvalue \<Rightarrow> pydict option \<Rightarrow> pydict" where
  "measurement_data sensor_id timestamp depth_inches rounded_vwc previous_hash additional_data =
     (let data = [(''sensor_id'', sensor_id), (''timestamp'', timestamp),
                  (''depth_inches'', depth_inches), (''vwc'', rounded_vwc),
                  (''previous_hash'', previous_hash)]
      in case additional_data of
           None \<Rightarrow> data
         | Some extra \<Rightarrow> (if extra = [] then data else copy_allowed extra allowed_keys data))"

definition hash_measurement ::
  "jvalue \<Rightarrow> jvalue \<Rightarrow> jvalue \<Rightarrow> jvalue \<Rightarrow> jvalue \<Rightarrow> pydict option \<Rightarrow> py_error + string" where
  "hash_measurement sensor_id timestamp depth_inches vwc previous_hash additional_data =
     (case jround vwc 6 of
        Inl e \<Rightarrow> Inl e
      | Inr r \<Rightarrow>
          Inr (sha256_hex (json_dumps_canonical
                 (measurement_data sensor_id timestamp depth_inches r previous_hash
                    additional_data))))"

text \<open>\<open>ForensicHasher._compute_merkle_root\<close>: one pass of the inner \<open>for\<close> loop, the
  \<open>while\<close> loop around it, and the function.\<close>

fun merkle_level :: "string list \<Rightarrow> string list" where
  "merkle_level [] = []"
| "merkle_level [left] = [sha256_hex (left @ left)]"
| "merkle_level (left # right # rest) = sha256_hex (left @ right) # merkle_level rest"

lemma length_merkle_level: "length (merkle_level hs) = (length hs + 1) div 2"
  by (induction hs rule: merkle_level.induct) simp_all

function merkle_loop :: "string list \<Rightarrow> string list" where
  "merkle_loop current_level =
     (if 1 < length current_level then merkle_loop (merkle_level current_level)
      else current_level)"
  by pat_completeness auto
termination
  by (relation "measure length") (auto simp: length_merkle_level)

declare merkle_loop.simps [simp del]

definition compute_merkle_root :: "string list \<Rightarrow> string" where
  "compute_merkle_root hashes =
     (if hashes = [] then genesis_hash
      else if length hashes = 1 then hd hashes
      else hd (merkle_loop hashes))"

text \<open>\<open>ForensicHasher.hash_batch\<close>: the loop that chains the measurements of the batch,
  then the function.\<close>

fun batch_hashes :: "pydict list \<Rightarrow> string \<Rightarrow> py_error + string list" where
  "batch_hashes [] current_previous = Inr []"
| "batch_hashes (m # ms) current_previous =
     (case dict_index m ''sensor_id'' of Inl e \<Rightarrow> Inl e | Inr sid \<Rightarrow>
      case dict_index m ''timestamp'' of Inl e \<Rightarrow> Inl e | Inr ts \<Rightarrow>
      case dict_index m ''depth_inches'' of Inl e \<Rightarrow> Inl e | Inr dep \<Rightarrow>
      case dict_index m ''volumetric_water_content'' of Inl e \<Rightarrow> Inl e | Inr vwc \<Rightarrow>
      case hash_measurement sid ts dep vwc (JStr current_previous) (Some m) of
        Inl e \<Rightarrow> Inl e
      | Inr m_hash \<Rightarrow>
          (case batch_hashes ms m_hash of Inl e \<Rightarrow> Inl e | Inr hs \<Rightarrow> Inr (m_hash # hs)))"

definition batch_data :: "string list \<Rightarrow> string \<Rightarrow> string \<Rightarrow> pydict" where
  "batch_data measurement_hashes previous_hash timestamp =
     [(''timestamp'', JStr timestamp),
      (''count'', JInt (int (length measurement_hashes))),
      (''merkle_root'', JStr (compute_merkle_root measurement_hashes)),
      (''first_hash'', JStr (hd measurement_hashes)),
      (''last_hash'', JStr (last measurement_hashes)),
      (''previous_batch_hash'', JStr previous_hash)]"

definition hash_batch :: "pydict list \<Rightarrow> string \<Rightarrow> string \<Rightarrow> py_error + string \<times> string" where
  "hash_batch measurements previous_hash timestamp =
     (if measurements = [] then Inr (previous_hash, previous_hash)
      else case batch_hashes measurements previous_hash of
             Inl e \<Rightarrow> Inl e
           | Inr measurement_hashes \<Rightarrow>
               Inr (sha256_hex (json_dumps_canonical
                      (batch_data measurement_hashes previous_hash timestamp)),
                    compute_merkle_root measurement_hashes))"

text \<open>\<open>ForensicHasher.sign_hash\<close>; the hasher is its signing key.\<close>

definition sign_hash :: "string option \<Rightarrow> string \<Rightarrow> string \<Rightarrow> string" where
  "sign_hash signing_key hash_value key_id =
     (case signing_key of
        None \<Rightarrow> ''unsigned:'' @ key_id
      | Some key \<Rightarrow>
          (if key = [] then ''unsigned:'' @ key_id
           else ''hmac:'' @ key_id @ '':''
                  @ hmac_sha256_hex (utf8_encode key) (utf8_encode hash_value)))"

text \<open>
  \<open>ForensicHasher.verify_chain_integrity\<close>. One entry of \<open>verification_results\<close>, the
  loop over the measurements, and the report. The report of an empty list has only the
  keys \<open>valid\<close>, \<open>error\<close> and \<open>chain_length\<close>; the clock reading of
  \<open>verification_time\<close> is the argument \<open>now\<close>.
\<close>

record verification_result =
  vr_timestamp :: jvalue
  vr_sensor_id :: jvalue
  computed_hash :: string
  stored_hash :: jvalue
  hash_valid :: bool
  chain_valid :: bool

record verification_report =
  valid :: bool
  error :: "string option"
  chain_length :: nat
  valid_hashes :: "nat option"
  expected_final_hash :: "string option"
  computed_final_hash :: "string option"
  chain_intact :: "bool option"
  verification_time :: "string option"

text \<open>\<open>computed_hash.startswith(stored_hash[:16]) if stored_hash else False\<close>: slicing
  a number raises.\<close>

fun chain_valid_of :: "string \<Rightarrow> jvalue \<Rightarrow> py_error + bool" where
  "chain_valid_of computed (JStr s) =
     Inr (s \<noteq> [] \<and> take (length (take 16 s)) computed = take 16 s)"
| "chain_valid_of computed v = (if truthy v then Inl TypeError else Inr False)"

definition empty_str :: jvalue where
  "empty_str = JStr []"

fun verify_loop ::
  "pydict list \<Rightarrow> string \<Rightarrow> verification_result list
     \<Rightarrow> py_error + string \<times> verification_result list" where
  "verify_loop [] previous_hash results = Inr (previous_hash, results)"
| "verify_loop (m # ms) previous_hash results =
     (case hash_measurement
             (dict_get_default m ''sensor_id'' (JStr ''unknown''))
             (dict_get_default m ''timestamp'' empty_str)
             (dict_get_default m ''depth_inches'' (JInt 0))
             (dict_get_default m ''volumetric_water_content'' (JFloat 0))
             (JStr previous_hash) (Some m) of
        Inl e \<Rightarrow> Inl e
      | Inr computed \<Rightarrow>
          (case chain_valid_of computed (dict_get_default m ''measurement_hash'' empty_str) of
             Inl e \<Rightarrow> Inl e
           | Inr cv \<Rightarrow>
               verify_loop ms computed
                 (results @
                  [\<lparr>vr_timestamp = dict_get_default m ''timestamp'' JNull,
                    vr_sensor_id = dict_get_default m ''sensor_id'' JNull,
                    computed_hash = computed,
                    stored_hash = dict_get_default m ''measurement_hash'' empty_str,
                    hash_valid =
                      (JStr computed = dict_get_default m ''measurement_hash'' empty_str),
                    chain_valid = cv\<rparr>])))"

definition verify_chain_integrity ::
  "string \<Rightarrow> pydict list \<Rightarrow> string \<Rightarrow> string \<Rightarrow> py_error + verification_report" where
  "verify_chain_integrity now measurements expected_first_hash expected_last_hash =
     (if measurements = [] then
        Inr \<lparr>valid = False, error = Some ''No measurements provided'', chain_length = 0,
             valid_hashes = None, expected_final_hash = None, computed_final_hash = None,
             chain_intact = None, verification_time = None\<rparr>
      else case verify_loop measurements expected_first_hash [] of
             Inl e \<Rightarrow> Inl e
           | Inr (final_hash, results) \<Rightarrow>
               Inr \<lparr>valid = (final_hash = expected_last_hash
                              \<and> length (filter hash_valid results) = length results),
                    error = None,
                    chain_length = length results,
                    valid_hashes = Some (length (filter hash_valid results)),
                    expected_final_hash = Some expected_last_hash,
                    computed_final_hash = Some final_hash,
                    chain_intact = Some (final_hash = expected_last_hash),
                    verification_time = Some now\<rparr>)"

text \<open>
  \<open>create_measurement_with_integrity\<close>, the ingest path. \<open>now\<close> is the reading of
  \<open>datetime.utcnow().isoformat()\<close>. The arguments have the types of the signature.
\<close>

definition opt_float :: "real option \<Rightarrow> jvalue" where
  "opt_float x = (case x of None \<Rightarrow> JNull | Some v \<Rightarrow> JFloat v)"

definition create_measurement_with_integrity ::
  "string \<Rightarrow> string \<Rightarrow> int \<Rightarrow> real \<Rightarrow> string \<Rightarrow> real option \<Rightarrow> real option \<Rightarrow> string option
     \<Rightarrow> py_error + pydict" where
  "create_measurement_with_integrity now sensor_id depth_inches vwc previous_hash
       soil_temp_c water_potential signer_key =
     (case hash_measurement (JStr sensor_id) (JStr now) (JInt depth_inches) (JFloat vwc)
             (JStr previous_hash)
             (Some [(''soil_temp_c'', opt_float soil_temp_c),
                    (''water_potential'', opt_float water_potential)]) of
        Inl e \<Rightarrow> Inl e
      | Inr measurement_hash \<Rightarrow>
          Inr [(''sensor_id'', JStr sensor_id),
               (''timestamp'', JStr now),
               (''depth_inches'', JInt depth_inches),
               (''volumetric_water_content'', JFloat vwc),
               (''soil_temperature_c'', opt_float soil_temp_c),
               (''soil_water_potential'', opt_float water_potential),
               (''measurement_hash'', JStr measurement_hash),
               (''previous_hash'', JStr previous_hash),
               (''signature'', JStr (sign_hash signer_key measurement_hash sensor_id)),
               (''signal_quality'', JFloat 1)])"

section \<open>Grid cells and the audit log\<close>

text \<open>
  \<open>KrigingCell\<close> of \<open>engine/kriging/regression_kriging.py\<close>. Field names are the
  source's; where two classes share a field name, the later record carries a short
  prefix.
  \<open>estimation_variance\<close> is a number: the kriging branch stores the int \<open>0\<close> of
  \<open>max(0, variance)\<close> there. \<open>anchor_sensor_id\<close> holds the value found under
  \<open>sensor_id\<close>, and \<open>JNull\<close> for \<open>None\<close>.
\<close>

record KrigingCell =
  cell_id :: string
  field_id :: string
  latitude :: real
  longitude :: real
  depth_inches :: int
  estimated_vwc :: real
  estimation_variance :: py_number
  confidence :: real
  is_hard_anchor :: bool
  anchor_sensor_id :: jvalue
  satellite_trend_value :: "real option"
  cell_hash :: "string option"

text \<open>
  \<open>AuditLogger.log_event\<close> appends one line to the log file. An entry is modelled by
  the three arguments of the call; the line's timestamp and the hash over it are
  functions of the wall clock and of these three, and are left out. A logger is the
  list of its entries.
\<close>

record audit_event =
  event_type :: string
  user_id :: string
  details :: pydict

definition log_event :: "audit_event list \<Rightarrow> string \<Rightarrow> string \<Rightarrow> pydict \<Rightarrow> audit_event list" where
  "log_event logger etype uid dets =
     logger @ [\<lparr>event_type = etype, user_id = uid, details = dets\<rparr>]"

text \<open>\<open>AuditLogger.log_irrigation_override\<close>; \<open>now\<close> is the clock reading stored in
  the details.\<close>

definition log_irrigation_override ::
  "audit_event list \<Rightarrow> string \<Rightarrow> string \<Rightarrow> string \<Rightarrow> string \<Rightarrow> string \<Rightarrow> int \<Rightarrow> string
     \<Rightarrow> audit_event list" where
  "log_irrigation_override logger now uid fid zid reason duration override_type =
     log_event logger ''irrigation_override'' uid
       [(''field_id'', JStr fid), (''zone_id'', JStr zid),
        (''override_type'', JStr override_type), (''reason'', JStr reason),
        (''duration_minutes'', JInt duration), (''timestamp_utc'', JStr now)]"

section \<open>Variable rate irrigation controller (\<open>vri/controller.py\<close>)\<close>

datatype ValveState = CLOSED | OPENING | OPEN | CLOSING | FAULT | MANUAL_OVERRIDE

datatype IrrigationZoneStatus =
    NO_IRRIGATION_NEEDED | IRRIGATION_RECOMMENDED | IRRIGATION_ACTIVE
  | SATURATION_DETECTED | DEEP_PERCOLATION_RISK

record ZoneIrrigationDecision =
  d_zone_id :: string
  d_field_id :: string
  current_avg_vwc :: real
  target_vwc :: real
  d_field_capacity :: real
  d_wilting_point :: real
  status :: IrrigationZoneStatus
  recommended_duration_minutes :: int
  d_confidence :: real
  grid_cell_count :: nat
  cells_below_target :: nat
  cells_above_fc :: nat
  cells_at_risk :: nat
  max_duration_minutes :: int
  d_timestamp :: string

definition should_irrigate :: "ZoneIrrigationDecision \<Rightarrow> bool" where
  "should_irrigate d \<longleftrightarrow>
     status d = IRRIGATION_RECOMMENDED \<and> 0.7 < d_confidence d
     \<and> 0 < recommended_duration_minutes d"

text \<open>An entry of \<open>active_irrigation\<close>.\<close>

record irrigation_info =
  started_at :: string
  duration_minutes :: int
  info_target_vwc :: real
  valve_id :: string

text \<open>
  The controller. \<open>audit_logger\<close> is \<open>None\<close> or the logger with its entries; the two
  dictionaries keep their insertion order. The Modbus address and the two callbacks have
  no part in what follows and are left out.
\<close>

record VRIController =
  audit_logger :: "audit_event list option"
  valve_states :: "(string \<times> ValveState) list"
  active_irrigation :: "(string \<times> irrigation_info) list"
  vwc_threshold_low :: real
  vwc_threshold_high :: real
  deep_percolation_threshold :: real

definition VRIController_init :: "audit_event list option \<Rightarrow> VRIController" where
  "VRIController_init logger =
     \<lparr>audit_logger = logger, valve_states = [], active_irrigation = [],
      vwc_threshold_low = 0.15, vwc_threshold_high = 0.35,
      deep_percolation_threshold = 0.42\<rparr>"

text \<open>\<open>max(values, default=0)\<close>\<close>

fun max_default :: "real list \<Rightarrow> real" where
  "max_default [] = 0"
| "max_default (x # xs) = fold max xs x"

definition duration_of_deficit :: "real \<Rightarrow> int" where
  "duration_of_deficit deficit = min (py_int (deficit * 100 * 15)) 120"

definition grid_confidence :: "real list \<Rightarrow> real \<Rightarrow> real" where
  "grid_confidence vwc_values avg_vwc =
     (if 1 < length vwc_values then
        max 0.5 (1 - (sum_list (map (\<lambda>v. (v - avg_vwc) ^ 2) vwc_values)
                        / real (length vwc_values)) * 10)
      else 0.5)"

text \<open>
  \<open>VRIController.analyze_zone_for_irrigation\<close>. The call returns the decision and, since
  it may write to the audit log, the controller. \<open>now\<close> is the clock reading that
  stamps the decision. \<open>crop_type\<close> is not read by the source.
\<close>

definition analyze_zone_for_irrigation ::
  "VRIController \<Rightarrow> string \<Rightarrow> string \<Rightarrow> string \<Rightarrow> KrigingCell list \<Rightarrow> (string \<times> real) list
     \<Rightarrow> string \<Rightarrow> VRIController \<times> ZoneIrrigationDecision" where
  "analyze_zone_for_irrigation ctl now zid fid grid_cells soil_properties crop_type =
     (if grid_cells = [] then
        (ctl,
         \<lparr>d_zone_id = zid, d_field_id = fid, current_avg_vwc = 0,
          target_vwc = dict_get_default soil_properties ''field_capacity'' 0.25,
          d_field_capacity = dict_get_default soil_properties ''field_capacity'' 0.25,
          d_wilting_point = dict_get_default soil_properties ''wilting_point'' 0.08,
          status = NO_IRRIGATION_NEEDED, recommended_duration_minutes = 0,
          d_confidence = 0, grid_cell_count = 0, cells_below_target = 0,
          cells_above_fc = 0, cells_at_risk = 0, max_duration_minutes = 120,
          d_timestamp = now\<rparr>)
      else
        let vwc_values = map estimated_vwc grid_cells;
            avg_vwc = sum_list vwc_values / real (length vwc_values);
            fc = dict_get_default soil_properties ''field_capacity'' 0.25;
            wp = dict_get_default soil_properties ''wilting_point'' 0.08;
            target = fc * 0.9;
            below = length (filter (\<lambda>v. v < target) vwc_values);
            above = length (filter (\<lambda>v. fc < v) vwc_values);
            deep_cells = filter (\<lambda>c. 42 \<le> depth_inches c) grid_cells;
            at_deep_risk =
              length (filter (\<lambda>c. deep_percolation_threshold ctl < estimated_vwc c) deep_cells);
            st = (if 0 < at_deep_risk then DEEP_PERCOLATION_RISK
                  else if real (length grid_cells) * 0.5 < real above then SATURATION_DETECTED
                  else if avg_vwc < target \<and> real (length grid_cells) * 0.3 < real below
                    then IRRIGATION_RECOMMENDED
                  else NO_IRRIGATION_NEEDED);
            duration = (if st = IRRIGATION_RECOMMENDED
                        then duration_of_deficit (target - avg_vwc) else 0);
            ctl' = (if 0 < at_deep_risk then
                      (case audit_logger ctl of
                         None \<Rightarrow> ctl
                       | Some logger \<Rightarrow>
                           ctl\<lparr>audit_logger := Some (log_event logger
                             ''deep_percolation_alert'' ''system''
                             [(''zone_id'', JStr zid), (''field_id'', JStr fid),
                              (''risk_cells'', JInt (int at_deep_risk)),
                              (''max_vwc'',
                               JFloat (max_default (map estimated_vwc deep_cells)))])\<rparr>)
                    else ctl)
        in (ctl',
            \<lparr>d_zone_id = zid, d_field_id = fid, current_avg_vwc = avg_vwc,
             target_vwc = target, d_field_capacity = fc, d_wilting_point = wp,
             status = st, recommended_duration_minutes = duration,
             d_confidence = grid_confidence vwc_values avg_vwc,
             grid_cell_count = length grid_cells, cells_below_target = below,
             cells_above_fc = above, cells_at_risk = at_deep_risk,
             max_duration_minutes = 120, d_timestamp = now\<rparr>))"

text \<open>
  \<open>VRIController.execute_irrigation_decision\<close>. \<open>send_ok\<close> is the result of
  \<open>_send_valve_command\<close> (whether the valve acknowledged in time), \<open>now\<close> the clock
  reading stored as \<open>started_at\<close>. The result is the controller and the returned flag.
\<close>

definition execute_irrigation_decision ::
  "VRIController \<Rightarrow> string \<Rightarrow> bool \<Rightarrow> ZoneIrrigationDecision \<Rightarrow> (string \<times> string) list
     \<Rightarrow> VRIController \<times> bool" where
  "execute_irrigation_decision ctl now send_ok decision valve_mapping =
     (case map_of valve_mapping (d_zone_id decision) of
        None \<Rightarrow> (ctl, False)
      | Some vid \<Rightarrow>
          if vid = [] then (ctl, False)
          else if should_irrigate decision then
            (if dict_get_default (valve_states ctl) vid CLOSED = CLOSED then
               (if send_ok then
                  (ctl\<lparr>valve_states := dict_set (valve_states ctl) vid OPEN,
                       active_irrigation := dict_set (active_irrigation ctl) (d_zone_id decision)
                         \<lparr>started_at = now,
                          duration_minutes = recommended_duration_minutes decision,
                          info_target_vwc = target_vwc decision,
                          valve_id = vid\<rparr>\<rparr>, True)
                else (ctl, False))
             else (ctl, True))
          else
            (if dict_get_default (valve_states ctl) vid CLOSED = OPEN
                \<and> map_of (active_irrigation ctl) (d_zone_id decision) \<noteq> None then
               (if send_ok then
                  (ctl\<lparr>valve_states := dict_set (valve_states ctl) vid CLOSED,
                       active_irrigation := dict_del (active_irrigation ctl) (d_zone_id decision)\<rparr>,
                   True)
                else (ctl, False))
             else (ctl, True)))"

text \<open>\<open>VRIController.manual_override\<close>; it always returns \<open>True\<close>.\<close>

definition manual_override ::
  "VRIController \<Rightarrow> string \<Rightarrow> string \<Rightarrow> string \<Rightarrow> string \<Rightarrow> string \<Rightarrow> int option
     \<Rightarrow> VRIController" where
  "manual_override ctl now vid command uid reason duration =
     ctl\<lparr>audit_logger :=
           (case audit_logger ctl of
              None \<Rightarrow> None
            | Some logger \<Rightarrow>
                Some (log_irrigation_override logger now uid ''unknown'' ''unknown'' reason
                        (case duration of None \<Rightarrow> 0 | Some n \<Rightarrow> n) ''manual'')),
         valve_states :=
           dict_set (valve_states ctl) vid
             (if command = ''open'' then MANUAL_OVERRIDE else CLOSED)\<rparr>"

text \<open>
  \<open>VRIController.emergency_stop_all\<close>: the loop over the entries of
  \<open>active_irrigation\<close>, threading the logger and the valve states, then the function.
\<close>

definition stop_event :: "string \<Rightarrow> string \<times> irrigation_info \<Rightarrow> audit_event" where
  "stop_event uid item =
     \<lparr>event_type = ''emergency_stop'', user_id = uid,
      details = [(''zone_id'', JStr (fst item)), (''valve_id'', JStr (valve_id (snd item))),
                 (''reason'', JStr ''emergency_stop_all'')]\<rparr>"

fun stop_loop ::
  "(string \<times> irrigation_info) list \<Rightarrow> string \<Rightarrow> audit_event list option
     \<Rightarrow> (string \<times> ValveState) list
     \<Rightarrow> audit_event list option \<times> (string \<times> ValveState) list" where
  "stop_loop [] uid logger valves = (logger, valves)"
| "stop_loop (item # items) uid logger valves =
     stop_loop items uid
       (case logger of None \<Rightarrow> None | Some l \<Rightarrow> Some (l @ [stop_event uid item]))
       (dict_set valves (valve_id (snd item)) CLOSED)"

definition emergency_stop_all :: "VRIController \<Rightarrow> string \<Rightarrow> VRIController" where
  "emergency_stop_all ctl uid =
     (case stop_loop (active_irrigation ctl) uid (audit_logger ctl) (valve_states ctl) of
        (logger, valves) \<Rightarrow>
          ctl\<lparr>audit_logger := logger, valve_states := valves, active_irrigation := []\<rparr>)"

text \<open>Cells and soil properties for the concrete runs below: a cell of field \<open>f1\<close> at
  a probe, and the soil properties the engine passes.\<close>

definition sample_cell :: "string \<Rightarrow> int \<Rightarrow> real \<Rightarrow> KrigingCell" where
  "sample_cell cid depth vwc =
     \<lparr>cell_id = cid, field_id = ''f1'', latitude = 37.5, longitude = - 105.8,
      depth_inches = depth, estimated_vwc = vwc, estimation_variance = PyFloat 0, confidence = 1,
      is_hard_anchor = True, anchor_sensor_id = JStr ''s1'', satellite_trend_value = None,
      cell_hash = None\<rparr>"

definition sample_soil :: "(string \<times> real) list" where
  "sample_soil = [(''field_capacity'', 0.25), (''wilting_point'', 0.08)]"

text \<open>
  A run of the public operations: zone \<open>f1_zone1\<close> is opened on \<open>valve_1\<close>, opened
  again under a valve mapping that names \<open>valve_2\<close>, closed on \<open>valve_2\<close> by a decision
  that does not irrigate, and \<open>valve_9\<close> is opened by manual override. The decisions
  come from \<open>analyze_zone_for_irrigation\<close> on two dry cells and on two moist cells.
\<close>

definition open_decision :: ZoneIrrigationDecision where
  "open_decision =
     snd (analyze_zone_for_irrigation (VRIController_init (Some [])) ''2024-01-01T00:00:00''
            ''f1_zone1'' ''f1''
            [sample_cell ''f1_18in_00000'' 18 0.2, sample_cell ''f1_18in_00001'' 18 0.2]
            sample_soil ''potato'')"

definition idle_decision :: ZoneIrrigationDecision where
  "idle_decision =
     snd (analyze_zone_for_irrigation (VRIController_init (Some [])) ''2024-01-01T00:30:00''
            ''f1_zone1'' ''f1''
            [sample_cell ''f1_18in_00000'' 18 0.24, sample_cell ''f1_18in_00001'' 18 0.24]
            sample_soil ''potato'')"

definition one_zone_open :: VRIController where
  "one_zone_open =
     fst (execute_irrigation_decision (VRIController_init (Some [])) ''2024-01-01T00:00:01''
            True open_decision [(''f1_zone1'', ''valve_1'')])"

definition remapped_open :: VRIController where
  "remapped_open =
     fst (execute_irrigation_decision one_zone_open ''2024-01-01T00:15:01''
            True open_decision [(''f1_zone1'', ''valve_2'')])"

definition stale_open_valve :: VRIController where
  "stale_open_valve =
     manual_override
       (fst (execute_irrigation_decision remapped_open ''2024-01-01T00:30:01''
               True idle_decision [(''f1_zone1'', ''valve_2'')]))
       ''2024-01-01T00:40:00'' ''valve_9'' ''open'' ''operator'' ''inspection'' None"

section \<open>Recursive Bayesian filter (\<open>engine/bayesian/filter.py\<close>)\<close>

record MoistureState =
  ms_latitude :: real
  ms_longitude :: real
  ms_depth_inches :: int
  predicted_vwc :: real
  prediction_variance :: real
  ms_confidence :: real
  ms_timestamp :: string

record SoilCoefficients =
  zone_id :: string
  ksat :: real
  field_capacity :: real
  wilting_point :: real
  sand_ratio :: real
  silt_ratio :: real
  clay_ratio :: real
  coefficient_variance :: real
  update_count :: nat

text \<open>The dataclass defaults.\<close>

definition SoilCoefficients_init :: "string \<Rightarrow> SoilCoefficients" where
  "SoilCoefficients_init z =
     \<lparr>zone_id = z, ksat = 10, field_capacity = 0.25, wilting_point = 0.08,
      sand_ratio = 0.33, silt_ratio = 0.33, clay_ratio = 0.34,
      coefficient_variance = 0.1, update_count = 0\<rparr>"

text \<open>\<open>SoilCoefficients._recalculate_hydraulics\<close>; \<open>10 ** x\<close> on floats is the real
  power.\<close>

definition recalculate_hydraulics :: "SoilCoefficients \<Rightarrow> SoilCoefficients" where
  "recalculate_hydraulics c =
     c\<lparr>ksat := 10 powr (- 0.6 + 1.3 * sand_ratio c - 0.6 * clay_ratio c) * 100,
       field_capacity := 0.2576 - 0.002 * sand_ratio c + 0.0036 * clay_ratio c,
       wilting_point := 0.026 + 0.005 * clay_ratio c\<rparr>"

text \<open>
  \<open>SoilCoefficients.update_from_residual\<close>. The three \<open>/= total\<close> raise
  \<open>ZeroDivisionError\<close> when the total is zero; the result is then the error.
\<close>

definition shift_texture :: "SoilCoefficients \<Rightarrow> real \<Rightarrow> real \<Rightarrow> SoilCoefficients" where
  "shift_texture c residual lr =
     (if 0 < residual then
        c\<lparr>clay_ratio := min 0.6 (clay_ratio c + lr * 0.05),
          sand_ratio := max 0.1 (sand_ratio c - lr * 0.05)\<rparr>
      else
        c\<lparr>sand_ratio := min 0.8 (sand_ratio c + lr * 0.05),
          clay_ratio := max 0.1 (clay_ratio c - lr * 0.05)\<rparr>)"

definition renormalize :: "SoilCoefficients \<Rightarrow> py_error + SoilCoefficients" where
  "renormalize c =
     (let total = sand_ratio c + silt_ratio c + clay_ratio c
      in if total = 0 then Inl ZeroDivisionError
         else Inr (c\<lparr>sand_ratio := sand_ratio c / total,
                      silt_ratio := silt_ratio c / total,
                      clay_ratio := clay_ratio c / total\<rparr>))"

definition update_from_residual ::
  "SoilCoefficients \<Rightarrow> real \<Rightarrow> real \<Rightarrow> py_error + SoilCoefficients" where
  "update_from_residual c residual lr =
     (if \<bar>residual\<bar> < 0.02 then Inr c
      else case renormalize (shift_texture c residual lr) of
             Inl e \<Rightarrow> Inl e
           | Inr c1 \<Rightarrow>
               Inr ((recalculate_hydraulics c1)
                      \<lparr>update_count := update_count c1 + 1,
                       coefficient_variance := coefficient_variance c1 * 0.95\<rparr>))"

text \<open>A sequence of calls, each with its residual and its learning rate; the first
  error ends it.\<close>

fun update_sequence ::
  "SoilCoefficients \<Rightarrow> (real \<times> real) list \<Rightarrow> py_error + SoilCoefficients" where
  "update_sequence c [] = Inr c"
| "update_sequence c ((residual, lr) # rest) =
     (case update_from_residual c residual lr of
        Inl e \<Rightarrow> Inl e
      | Inr c1 \<Rightarrow> update_sequence c1 rest)"

text \<open>The filter object.\<close>

record RecursiveBayesianFilter =
  update_threshold :: real
  learning_rate :: real
  coefficients :: "(string \<times> SoilCoefficients) list"
  last_predictions :: "(string \<times> MoistureState) list"
  total_predictions :: nat
  total_updates :: nat

definition RecursiveBayesianFilter_init :: "real \<Rightarrow> real \<Rightarrow> RecursiveBayesianFilter" where
  "RecursiveBayesianFilter_init threshold lr =
     \<lparr>update_threshold = threshold, learning_rate = lr, coefficients = [],
      last_predictions = [], total_predictions = 0, total_updates = 0\<rparr>"

text \<open>\<open>get_or_create_coefficients\<close>: the filter, with the zone added when it was new,
  and the zone's coefficients.\<close>

definition get_or_create_coefficients ::
  "RecursiveBayesianFilter \<Rightarrow> string \<Rightarrow> RecursiveBayesianFilter \<times> SoilCoefficients" where
  "get_or_create_coefficients flt z =
     (case map_of (coefficients flt) z of
        None \<Rightarrow>
          (flt\<lparr>coefficients := dict_set (coefficients flt) z (SoilCoefficients_init z)\<rparr>,
           SoilCoefficients_init z)
      | Some c \<Rightarrow> (flt, c))"

text \<open>The cache key \<open>f"{zone_id}_{depth_inches}"\<close>.\<close>

definition prediction_key :: "string \<Rightarrow> int \<Rightarrow> string" where
  "prediction_key z depth = z @ ''_'' @ str_of_int depth"

definition et_fraction :: "int \<Rightarrow> real" where
  "et_fraction depth = (if depth \<le> 18 then 0.6 else if depth \<le> 36 then 0.3 else 0.1)"

definition baseline_of :: "RecursiveBayesianFilter \<Rightarrow> SoilCoefficients \<Rightarrow> string \<Rightarrow> real" where
  "baseline_of flt coeffs key =
     (case map_of (last_predictions flt) key of
        Some s \<Rightarrow> predicted_vwc s
      | None \<Rightarrow> field_capacity coeffs)"

definition drainage_of :: "SoilCoefficients \<Rightarrow> real \<Rightarrow> real \<Rightarrow> real" where
  "drainage_of coeffs baseline hours =
     (if field_capacity coeffs < baseline then
        min (baseline - field_capacity coeffs) (ksat coeffs / 100 * (hours / 24) * 0.1)
      else 0)"

text \<open>
  \<open>RecursiveBayesianFilter.predict\<close>. \<open>now\<close> is the clock reading of the state's
  timestamp; \<open>soil_texture\<close> is not read by the source. \<open>1.0 / (1.0 + variance)\<close> raises
  \<open>ZeroDivisionError\<close> when the denominator is zero.
\<close>

definition predict ::
  "RecursiveBayesianFilter \<Rightarrow> string \<Rightarrow> string \<Rightarrow> real \<Rightarrow> real \<Rightarrow> int \<Rightarrow> real \<Rightarrow> real
     \<Rightarrow> pydict option \<Rightarrow> py_error + RecursiveBayesianFilter \<times> MoistureState" where
  "predict flt now z lat lon depth et_rate_mm_day hours_since_last soil_texture =
     (case get_or_create_coefficients flt z of
        (flt1, coeffs) \<Rightarrow>
          let key = prediction_key z depth;
              baseline = baseline_of flt1 coeffs key;
              et_loss = (et_rate_mm_day / 24 * hours_since_last) / 1000 * et_fraction depth;
              drainage = drainage_of coeffs baseline hours_since_last;
              predicted = max (wilting_point coeffs) (min 0.5 (baseline - et_loss - drainage));
              variance = coefficient_variance coeffs * (1 + hours_since_last / 24)
          in if 1 + variance = 0 then Inl ZeroDivisionError
             else
               let state = \<lparr>ms_latitude = lat, ms_longitude = lon, ms_depth_inches = depth,
                             predicted_vwc = predicted, prediction_variance = variance,
                             ms_confidence = 1 / (1 + variance), ms_timestamp = now\<rparr>
               in Inr (flt1\<lparr>last_predictions := dict_set (last_predictions flt1) key state,
                            total_predictions := total_predictions flt1 + 1\<rparr>,
                       state))"

text \<open>
  The predicted value as the specification words it, for comparison: the ET loss is
  \<open>(ET \<cdot> hours / 24) \<cdot> f_depth\<close>, with no conversion of millimetres.
\<close>

definition spec_predicted_vwc :: "SoilCoefficients \<Rightarrow> real \<Rightarrow> int \<Rightarrow> real \<Rightarrow> real \<Rightarrow> real" where
  "spec_predicted_vwc coeffs baseline depth et hours =
     max (wilting_point coeffs)
       (min 0.5 (baseline - (et * hours / 24) * et_fraction depth
                   - drainage_of coeffs baseline hours))"

text \<open>
  The invariant of the soil parameters: the textural fractions are non-negative and sum
  to one, the wilting point does not exceed the field capacity, the field capacity does
  not exceed 0.5, and the conductivity is positive.
\<close>

definition soil_invariant :: "SoilCoefficients \<Rightarrow> bool" where
  "soil_invariant c \<longleftrightarrow>
     0 \<le> sand_ratio c \<and> 0 \<le> silt_ratio c \<and> 0 \<le> clay_ratio c
     \<and> sand_ratio c + silt_ratio c + clay_ratio c = 1
     \<and> wilting_point c \<le> field_capacity c \<and> field_capacity c \<le> 0.5 \<and> 0 < ksat c"

section \<open>Time-series store (\<open>persistence/timeseries.py\<close>)\<close>

text \<open>
  The SQLite database of \<open>TimeSeriesStore\<close>: the rows of table \<open>measurements\<close> in
  insertion order, the row \<open>id = 1\<close> of table \<open>chain_state\<close> when it exists, and the
  next value of the \<open>AUTOINCREMENT\<close> key. A column holds the value it was given
  (\<open>JNull\<close> is SQL \<open>NULL\<close>); SQLite's conversion of a number written to a \<open>TEXT\<close>
  column is not modelled. \<open>raw_data\<close> holds the dictionary that \<open>json.dumps\<close>
  serialised.
\<close>

record measurement_row =
  row_id :: nat
  r_sensor_id :: jvalue
  r_depth_inches :: jvalue
  r_timestamp :: jvalue
  r_vwc :: jvalue
  r_soil_temp_c :: jvalue
  r_water_potential :: jvalue
  r_signal_quality :: jvalue
  r_measurement_hash :: jvalue
  r_previous_hash :: jvalue
  r_signature :: jvalue
  raw_data :: "pydict option"
  created_at :: string

record chain_state_row =
  last_hash :: jvalue
  total_records :: int
  last_updated :: string

record TimeSeriesStore =
  measurements :: "measurement_row list"
  chain_state :: "chain_state_row option"
  next_id :: nat

text \<open>\<open>TimeSeriesStore._init_database\<close> on a database, and the constructor on a new
  file. \<open>now\<close> is SQLite's \<open>CURRENT_TIMESTAMP\<close>.\<close>

definition init_database :: "TimeSeriesStore \<Rightarrow> string \<Rightarrow> TimeSeriesStore" where
  "init_database db now =
     (case chain_state db of
        None \<Rightarrow> db\<lparr>chain_state := Some \<lparr>last_hash = JStr genesis_hash, total_records = 0,
                                          last_updated = now\<rparr>\<rparr>
      | Some cs \<Rightarrow> db)"

definition TimeSeriesStore_init :: "string \<Rightarrow> TimeSeriesStore" where
  "TimeSeriesStore_init now =
     init_database \<lparr>measurements = [], chain_state = None, next_id = 1\<rparr> now"

text \<open>\<open>TimeSeriesStore.get_last_hash\<close>\<close>

definition get_last_hash :: "TimeSeriesStore \<Rightarrow> jvalue" where
  "get_last_hash st =
     (case chain_state st of None \<Rightarrow> JStr genesis_hash | Some cs \<Rightarrow> last_hash cs)"

text \<open>The row that the \<open>INSERT\<close> writes, from the six subscripted values and the
  dictionary.\<close>

definition new_row ::
  "nat \<Rightarrow> string \<Rightarrow> pydict \<Rightarrow> jvalue \<Rightarrow> jvalue \<Rightarrow> jvalue \<Rightarrow> jvalue \<Rightarrow> jvalue \<Rightarrow> jvalue
     \<Rightarrow> measurement_row" where
  "new_row rid now m sid dep ts vwc mh ph =
     \<lparr>row_id = rid, r_sensor_id = sid, r_depth_inches = dep, r_timestamp = ts, r_vwc = vwc,
      r_soil_temp_c = dict_get_default m ''soil_temperature_c'' JNull,
      r_water_potential = dict_get_default m ''soil_water_potential'' JNull,
      r_signal_quality = dict_get_default m ''signal_quality'' (JFloat 1),
      r_measurement_hash = mh, r_previous_hash = ph,
      r_signature = dict_get_default m ''signature'' JNull,
      raw_data = (if map_of m ''raw_data'' = None then Some m else None),
      created_at = now\<rparr>"

text \<open>The \<open>UPDATE chain_state ... WHERE id = 1\<close>.\<close>

definition update_chain_state :: "chain_state_row option \<Rightarrow> jvalue \<Rightarrow> string \<Rightarrow> chain_state_row option" where
  "update_chain_state cs mh now =
     (case cs of
        None \<Rightarrow> None
      | Some c \<Rightarrow> Some (c\<lparr>last_hash := mh, total_records := total_records c + 1,
                             last_updated := now\<rparr>))"

text \<open>An int outside 64 bits cannot be bound to a parameter: \<open>execute\<close> raises
  \<open>OverflowError\<close>.\<close>

fun int64_overflow :: "jvalue \<Rightarrow> bool" where
  "int64_overflow (JInt i) = (i < - (2 ^ 63) \<or> 2 ^ 63 \<le> i)"
| "int64_overflow v = False"

text \<open>
  \<open>TimeSeriesStore.store_measurement\<close>. A missing key raises \<open>KeyError\<close> while the
  parameter tuple is built; an int outside 64 bits among the ten values raises
  \<open>OverflowError\<close> when they are bound; a \<open>NULL\<close> in a \<open>NOT NULL\<close> column or a
  measurement hash that is already in the table raises \<open>sqlite3.IntegrityError\<close> at the
  \<open>INSERT\<close>. Each is caught and the function returns \<open>False\<close>; the connection is
  closed without a commit, so the database is as it was. Otherwise the \<open>INSERT\<close> and the \<open>UPDATE\<close> are
  committed together and the function returns \<open>True\<close>.
\<close>

definition insert_measurement ::
  "TimeSeriesStore \<Rightarrow> string \<Rightarrow> pydict \<Rightarrow> py_error + TimeSeriesStore" where
  "insert_measurement st now m =
     (case dict_index m ''sensor_id'' of Inl e \<Rightarrow> Inl e | Inr sid \<Rightarrow>
      case dict_index m ''depth_inches'' of Inl e \<Rightarrow> Inl e | Inr dep \<Rightarrow>
      case dict_index m ''timestamp'' of Inl e \<Rightarrow> Inl e | Inr ts \<Rightarrow>
      case dict_index m ''volumetric_water_content'' of Inl e \<Rightarrow> Inl e | Inr vwc \<Rightarrow>
      case dict_index m ''measurement_hash'' of Inl e \<Rightarrow> Inl e | Inr mh \<Rightarrow>
      case dict_index m ''previous_hash'' of Inl e \<Rightarrow> Inl e | Inr ph \<Rightarrow>
        if list_ex int64_overflow
             [sid, dep, ts, vwc, dict_get_default m ''soil_temperature_c'' JNull,
              dict_get_default m ''soil_water_potential'' JNull,
              dict_get_default m ''signal_quality'' (JFloat 1), mh, ph,
              dict_get_default m ''signature'' JNull]
        then Inl OverflowError
        else if JNull \<in> set [sid, dep, ts, vwc, mh, ph] then Inl IntegrityError
        else if mh \<in> set (map r_measurement_hash (measurements st)) then Inl IntegrityError
        else Inr (st\<lparr>measurements :=
                        measurements st @ [new_row (next_id st) now m sid dep ts vwc mh ph],
                      chain_state := update_chain_state (chain_state st) mh now,
                      next_id := next_id st + 1\<rparr>))"

definition store_measurement ::
  "TimeSeriesStore \<Rightarrow> string \<Rightarrow> pydict \<Rightarrow> TimeSeriesStore \<times> bool" where
  "store_measurement st now m =
     (case insert_measurement st now m of
        Inl e \<Rightarrow> (st, False)
      | Inr st' \<Rightarrow> (st', True))"

text \<open>A measurement dictionary of the shape the ingest path produces, for the concrete
  run below.\<close>

definition sample_measurement :: pydict where
  "sample_measurement =
     [(''sensor_id'', JStr ''s1''), (''timestamp'', JStr ''2024-01-01T00:00:00''),
      (''depth_inches'', JInt 18), (''volumetric_water_content'', JFloat 0.25),
      (''soil_temperature_c'', JFloat 15.4), (''soil_water_potential'', JNull),
      (''measurement_hash'', JStr ''75607d75eb4295b4f1c6c51fad6411639cbad01538fafb264000265eb074615c''), (''previous_hash'', JStr genesis_hash),
      (''signature'', JStr ''unsigned:s1''), (''signal_quality'', JFloat 1)]"

section \<open>Regression kriging (\<open>engine/kriging/regression_kriging.py\<close>)\<close>

text \<open>
  Sensor measurements are dictionaries, read with \<open>.get\<close> and \<open>[...]\<close>. Python's \<open>==\<close> on
  two values compares numbers by value across \<open>bool\<close>, \<open>int\<close> and \<open>float\<close>, and
  anything else by equality. \<open>anchor_sensor_id\<close> of a cell holds the value found under
  \<open>sensor_id\<close>, and \<open>JNull\<close> for \<open>None\<close>.
\<close>

fun num_val :: "jvalue \<Rightarrow> real option" where
  "num_val (JBool b) = Some (if b then 1 else 0)"
| "num_val (JInt i) = Some (of_int i)"
| "num_val (JFloat x) = Some x"
| "num_val JNull = None"
| "num_val (JStr s) = None"

definition py_eq :: "jvalue \<Rightarrow> jvalue \<Rightarrow> bool" where
  "py_eq a b =
     (case num_val a of
        Some x \<Rightarrow> (case num_val b of Some y \<Rightarrow> x = y | None \<Rightarrow> False)
      | None \<Rightarrow> (case num_val b of Some y \<Rightarrow> False | None \<Rightarrow> a = b))"

text \<open>
  \<open>KrigingCell.compute_hash\<close>. \<open>now\<close> is the reading of
  \<open>datetime.utcnow().isoformat()\<close> at the call. Coordinates and estimate are floats
  (a probe reading is taken to be a float), the variance is a float or the int \<open>0\<close>; the
  hashed dictionary and the cell with its hash set.
\<close>

definition cell_data :: "KrigingCell \<Rightarrow> string \<Rightarrow> pydict" where
  "cell_data c now =
     [(''cell_id'', JStr (cell_id c)),
      (''field_id'', JStr (field_id c)),
      (''lat'', JFloat (py_round (latitude c) 8)),
      (''lon'', JFloat (py_round (longitude c) 8)),
      (''depth'', JInt (depth_inches c)),
      (''vwc'', JFloat (py_round (estimated_vwc c) 6)),
      (''variance'', round_number (estimation_variance c) 8),
      (''timestamp'', JStr now)]"

definition compute_hash :: "KrigingCell \<Rightarrow> string \<Rightarrow> KrigingCell" where
  "compute_hash c now =
     c\<lparr>cell_hash := Some (sha256_hex (json_dumps_canonical (cell_data c now)))\<rparr>"

text \<open>
  The engine. Of the array module \<open>self.xp\<close> the model keeps the one operation that is
  not written out here, the inverse of the kriging matrix (\<open>linalg.inv\<close>, and
  \<open>linalg.pinv\<close> when that raises); it returns a matrix of the shape it was given.
  Arrays are lists, floats are reals.
\<close>

record RegressionKrigingEngine =
  grid_resolution :: real
  xp_linalg_inv :: "real list list \<Rightarrow> real list list"
  nugget :: real
  sill :: real
  range_meters :: real
  trend_weight :: real

definition RegressionKrigingEngine_init ::
  "real \<Rightarrow> (real list list \<Rightarrow> real list list) \<Rightarrow> RegressionKrigingEngine" where
  "RegressionKrigingEngine_init grid_resolution_meters module_inv =
     \<lparr>grid_resolution = grid_resolution_meters, xp_linalg_inv = module_inv, nugget = 0.001,
      sill = 0.05, range_meters = 150, trend_weight = 0.3\<rparr>"

text \<open>\<open>_variogram_model\<close>, on one distance.\<close>

definition variogram_model :: "RegressionKrigingEngine \<Rightarrow> real \<Rightarrow> real" where
  "variogram_model eng h =
     (if h \<le> range_meters eng then
        nugget eng
          + sill eng * (1.5 * h / range_meters eng - 0.5 * (h / range_meters eng) ^ 3)
      else nugget eng + sill eng)"

text \<open>\<open>_distance_matrix\<close>: one entry, and the matrix.\<close>

definition distance_m :: "real \<times> real \<Rightarrow> real \<times> real \<Rightarrow> real" where
  "distance_m p q =
     sqrt ((fst p * 111000 - fst q * 111000) ^ 2 + (snd p * 86000 - snd q * 86000) ^ 2)"

definition distance_matrix :: "(real \<times> real) list \<Rightarrow> (real \<times> real) list \<Rightarrow> real list list" where
  "distance_matrix coords1 coords2 = map (\<lambda>p. map (distance_m p) coords2) coords1"

text \<open>\<open>_build_kriging_system\<close>: the variogram matrix bordered by ones, with the corner
  zero.\<close>

definition build_kriging_system ::
  "RegressionKrigingEngine \<Rightarrow> (real \<times> real) list \<Rightarrow> real list list" where
  "build_kriging_system eng sensor_coords =
     map (\<lambda>row. map (variogram_model eng) row @ [1])
       (distance_matrix sensor_coords sensor_coords)
     @ [replicate (length sensor_coords) 1 @ [0]]"

text \<open>The product \<open>K_inv @ k_lagrange\<close> and the sum of an elementwise product.\<close>

definition dot :: "real list \<Rightarrow> real list \<Rightarrow> real" where
  "dot xs ys = sum_list (map2 (*) xs ys)"

definition mat_vec :: "real list list \<Rightarrow> real list \<Rightarrow> real list" where
  "mat_vec m v = map (\<lambda>row. dot row v) m"

text \<open>\<open>numpy.linspace(start, stop, num)\<close>; a negative \<open>num\<close> raises \<open>ValueError\<close>.\<close>

definition linspace :: "real \<Rightarrow> real \<Rightarrow> int \<Rightarrow> py_error + real list" where
  "linspace start stop num =
     (if num < 0 then Inl ValueError
      else Inr (map (\<lambda>i. if num = 1 then start
                           else start + real i * ((stop - start) / of_int (num - 1)))
                  [0..<nat num]))"

text \<open>\<open>numpy.argmin\<close> of a non-empty array: the first index of the least element.\<close>

fun argmin :: "real list \<Rightarrow> nat" where
  "argmin [] = 0"
| "argmin [x] = 0"
| "argmin (x # y # ys) = (if x \<le> (y # ys) ! argmin (y # ys) then 0 else Suc (argmin (y # ys)))"

text \<open>\<open>sensor_ids.index(v)\<close>: the first position whose element equals \<open>v\<close>. The source
  calls it with an element of the list, so the \<open>ValueError\<close> of a missing element does
  not arise; the model then gives the length.\<close>

fun index_of :: "jvalue list \<Rightarrow> jvalue \<Rightarrow> nat" where
  "index_of [] v = 0"
| "index_of (x # xs) v = (if py_eq x v then 0 else Suc (index_of xs v))"

text \<open>
  The probes at the requested depth, as the first loop of \<open>generate_virtual_grid\<close>
  collects them: latitude, longitude, reading and sensor id of every measurement whose
  \<open>depth_inches\<close> equals the depth. A missing key raises \<open>KeyError\<close>.
\<close>

fun sensor_arrays ::
  "pydict list \<Rightarrow> int \<Rightarrow> py_error + (jvalue \<times> jvalue \<times> jvalue \<times> jvalue) list" where
  "sensor_arrays [] depth = Inr []"
| "sensor_arrays (m # ms) depth =
     (if py_eq (dict_get_default m ''depth_inches'' JNull) (JInt depth) then
        case dict_index m ''latitude'' of Inl e \<Rightarrow> Inl e | Inr lat \<Rightarrow>
        case dict_index m ''longitude'' of Inl e \<Rightarrow> Inl e | Inr lon \<Rightarrow>
        case dict_index m ''vwc'' of Inl e \<Rightarrow> Inl e | Inr v \<Rightarrow>
        case sensor_arrays ms depth of Inl e \<Rightarrow> Inl e | Inr rest \<Rightarrow>
          Inr ((lat, lon, v, dict_get_default m ''sensor_id'' (JStr ''unknown'')) # rest)
      else sensor_arrays ms depth)"

text \<open>
  The probes as arrays of numbers. Arithmetic on an array that holds \<open>None\<close> or a string
  raises \<open>TypeError\<close>.
\<close>

record sensor_point =
  s_lat :: real
  s_lon :: real
  s_value :: real
  s_id :: jvalue

definition s_coord :: "sensor_point \<Rightarrow> real \<times> real" where
  "s_coord s = (s_lat s, s_lon s)"

fun as_numbers :: "(jvalue \<times> jvalue \<times> jvalue \<times> jvalue) list \<Rightarrow> py_error + sensor_point list" where
  "as_numbers [] = Inr []"
| "as_numbers ((lat, lon, v, sid) # rest) =
     (case num_val lat of None \<Rightarrow> Inl TypeError | Some la \<Rightarrow>
      case num_val lon of None \<Rightarrow> Inl TypeError | Some lo \<Rightarrow>
      case num_val v of None \<Rightarrow> Inl TypeError | Some x \<Rightarrow>
      case as_numbers rest of Inl e \<Rightarrow> Inl e | Inr ps \<Rightarrow>
        Inr (\<lparr>s_lat = la, s_lon = lo, s_value = x, s_id = sid\<rparr> # ps))"

text \<open>The grid dimensions; dividing by a zero resolution raises.\<close>

definition grid_dims ::
  "RegressionKrigingEngine \<Rightarrow> real \<times> real \<times> real \<times> real \<Rightarrow> py_error + int \<times> int" where
  "grid_dims eng field_bounds =
     (case field_bounds of (min_lat, min_lon, max_lat, max_lon) \<Rightarrow>
        if grid_resolution eng = 0 then Inl ZeroDivisionError
        else
          let n_lat = py_int ((max_lat - min_lat) * 111000 / grid_resolution eng) + 1;
              n_lon = py_int ((max_lon - min_lon) * 86000 / grid_resolution eng) + 1
          in if 10000 < n_lat * n_lon then
               Inr (py_int (of_int n_lat * sqrt (10000 / of_int (n_lat * n_lon))),
                    py_int (of_int n_lon * sqrt (10000 / of_int (n_lat * n_lon))))
             else Inr (n_lat, n_lon))"

text \<open>The cell id \<open>f"{field_id}_{depth_inches}in_{cell_count:05d}"\<close>.\<close>

definition make_cell_id :: "string \<Rightarrow> int \<Rightarrow> nat \<Rightarrow> string" where
  "make_cell_id fid depth cell_count =
     fid @ ''_'' @ str_of_int depth @ ''in_'' @ str_of_nat_05 cell_count"

text \<open>\<open>_check_sensor_location\<close>, with the tolerance in metres.\<close>

definition check_sensor_location ::
  "real \<Rightarrow> real \<Rightarrow> (real \<times> real) list \<Rightarrow> jvalue list \<Rightarrow> real \<Rightarrow> bool \<times> jvalue" where
  "check_sensor_location lat lon sensor_coords sensor_ids tolerance_meters =
     (let dist = map (distance_m (lat, lon)) sensor_coords;
          min_dist_idx = argmin dist
      in if dist ! min_dist_idx < tolerance_meters then (True, sensor_ids ! min_dist_idx)
         else (False, JNull))"

text \<open>
  The body of the double loop of \<open>generate_virtual_grid\<close> at one grid point, before the
  hash: the hard-anchor branch and the kriging branch.
  \<open>max(0, variance)\<close> is the float when it is positive and the int \<open>0\<close> otherwise.
\<close>

definition anchor_cell ::
  "string \<Rightarrow> int \<Rightarrow> sensor_point list \<Rightarrow> (real \<Rightarrow> real \<Rightarrow> real) option \<Rightarrow> jvalue \<Rightarrow> nat
     \<Rightarrow> real \<Rightarrow> real \<Rightarrow> KrigingCell" where
  "anchor_cell fid depth sensors satellite_trend anchor_sensor cell_count lat lon =
     \<lparr>cell_id = make_cell_id fid depth cell_count, field_id = fid, latitude = lat,
      longitude = lon, depth_inches = depth,
      estimated_vwc = map s_value sensors ! index_of (map s_id sensors) anchor_sensor,
      estimation_variance = PyFloat 0, confidence = 1, is_hard_anchor = True,
      anchor_sensor_id = anchor_sensor,
      satellite_trend_value = (case satellite_trend of None \<Rightarrow> None | Some f \<Rightarrow> Some (f lat lon)),
      cell_hash = None\<rparr>"

definition trend_at :: "(real \<Rightarrow> real \<Rightarrow> real) option \<Rightarrow> real \<Rightarrow> real \<Rightarrow> real" where
  "trend_at satellite_trend lat lon =
     (case satellite_trend of None \<Rightarrow> 0 | Some f \<Rightarrow> f lat lon)"

definition detrended_values ::
  "RegressionKrigingEngine \<Rightarrow> sensor_point list \<Rightarrow> (real \<Rightarrow> real \<Rightarrow> real) option \<Rightarrow> real list" where
  "detrended_values eng sensors satellite_trend =
     map (\<lambda>s. s_value s - trend_weight eng * trend_at satellite_trend (s_lat s) (s_lon s))
       sensors"

definition interpolated_cell ::
  "RegressionKrigingEngine \<Rightarrow> string \<Rightarrow> int \<Rightarrow> sensor_point list
     \<Rightarrow> (real \<Rightarrow> real \<Rightarrow> real) option \<Rightarrow> real list list \<Rightarrow> nat \<Rightarrow> real \<Rightarrow> real \<Rightarrow> KrigingCell" where
  "interpolated_cell eng fid depth sensors satellite_trend K_inv cell_count lat lon =
     (let k_variogram =
            map (variogram_model eng) (map (distance_m (lat, lon)) (map s_coord sensors));
          weights = mat_vec K_inv (k_variogram @ [1]);
          kriging_weights = take (length sensors) weights;
          detrended_estimate =
            dot kriging_weights (detrended_values eng sensors satellite_trend);
          trend_value = trend_at satellite_trend lat lon;
          kriging_variance = sill eng + nugget eng - dot kriging_weights k_variogram;
          variance = (if 0 < kriging_variance then PyFloat kriging_variance else PyInt 0)
      in \<lparr>cell_id = make_cell_id fid depth cell_count, field_id = fid, latitude = lat,
           longitude = lon, depth_inches = depth,
           estimated_vwc = detrended_estimate + trend_weight eng * trend_value,
           estimation_variance = variance,
           confidence = 1 / (1 + number_value variance * 10),
           is_hard_anchor = False, anchor_sensor_id = JNull,
           satellite_trend_value = Some trend_value, cell_hash = None\<rparr>)"

definition kriging_cell ::
  "RegressionKrigingEngine \<Rightarrow> string \<Rightarrow> int \<Rightarrow> sensor_point list
     \<Rightarrow> (real \<Rightarrow> real \<Rightarrow> real) option \<Rightarrow> real list list \<Rightarrow> nat \<Rightarrow> real \<times> real \<Rightarrow> KrigingCell" where
  "kriging_cell eng fid depth sensors satellite_trend K_inv cell_count p =
     (case check_sensor_location (fst p) (snd p) (map s_coord sensors) (map s_id sensors) 5 of
        (is_anchor, anchor_sensor) \<Rightarrow>
          if is_anchor then
            anchor_cell fid depth sensors satellite_trend anchor_sensor cell_count (fst p) (snd p)
          else
            interpolated_cell eng fid depth sensors satellite_trend K_inv cell_count
              (fst p) (snd p))"

text \<open>The grid points in the order of the two nested loops, and the cells of a grid:
  cell number \<open>k\<close> is built and then hashed at the clock reading \<open>clock k\<close>.\<close>

definition grid_points :: "real list \<Rightarrow> real list \<Rightarrow> (real \<times> real) list" where
  "grid_points lat_grid lon_grid = List.product lat_grid lon_grid"

definition hashed_cells ::
  "(nat \<Rightarrow> string) \<Rightarrow> (nat \<Rightarrow> real \<times> real \<Rightarrow> KrigingCell) \<Rightarrow> (real \<times> real) list
     \<Rightarrow> KrigingCell list" where
  "hashed_cells clock cell points =
     map (\<lambda>kp. compute_hash (cell (fst kp) (snd kp)) (clock (fst kp))) (enumerate 0 points)"

text \<open>
  \<open>_fallback_interpolation\<close>: inverse distance weighting over the probes at the depth,
  or over one default probe at the centre of the field when there is none.
\<close>

definition idw_cell :: "string \<Rightarrow> int \<Rightarrow> sensor_point list \<Rightarrow> nat \<Rightarrow> real \<times> real \<Rightarrow> KrigingCell" where
  "idw_cell fid depth sensors cell_count p =
     (let dist = map (\<lambda>s. sqrt (((fst p - s_lat s) * 111000) ^ 2
                                  + ((snd p - s_lon s) * 86000) ^ 2)) sensors;
          weights = map (\<lambda>d. 1 / (d + 1)) dist;
          normalized = map (\<lambda>w. w / sum_list weights) weights
      in \<lparr>cell_id = make_cell_id fid depth cell_count, field_id = fid, latitude = fst p,
           longitude = snd p, depth_inches = depth,
           estimated_vwc = dot normalized (map s_value sensors),
           estimation_variance = PyFloat (sum_list dist / real (length dist) / 1000),
           confidence = 0.5, is_hard_anchor = False, anchor_sensor_id = JNull,
           satellite_trend_value = None, cell_hash = None\<rparr>)"

definition fallback_interpolation ::
  "(nat \<Rightarrow> string) \<Rightarrow> string \<Rightarrow> real \<Rightarrow> real \<Rightarrow> real \<Rightarrow> real \<Rightarrow> int \<Rightarrow> int \<Rightarrow> pydict list \<Rightarrow> int
     \<Rightarrow> py_error + KrigingCell list" where
  "fallback_interpolation clock fid min_lat min_lon max_lat max_lon n_lat n_lon
       sensor_measurements depth =
     (case sensor_arrays sensor_measurements depth of Inl e \<Rightarrow> Inl e | Inr found \<Rightarrow>
      case linspace min_lat max_lat n_lat of Inl e \<Rightarrow> Inl e | Inr lat_grid \<Rightarrow>
      case linspace min_lon max_lon n_lon of Inl e \<Rightarrow> Inl e | Inr lon_grid \<Rightarrow>
        if grid_points lat_grid lon_grid = [] then Inr []
        else
          case as_numbers
                 (if found = [] then
                    [(JFloat ((min_lat + max_lat) / 2), JFloat ((min_lon + max_lon) / 2),
                      JFloat 0.20, JNull)]
                  else found) of
            Inl e \<Rightarrow> Inl e
          | Inr sensors \<Rightarrow>
              Inr (hashed_cells clock (idw_cell fid depth sensors)
                     (grid_points lat_grid lon_grid)))"

text \<open>
  \<open>generate_virtual_grid\<close>. \<open>clock k\<close> is the reading of the clock when cell number
  \<open>k\<close> is hashed; a trend function is a function of two floats.
\<close>

definition generate_virtual_grid ::
  "RegressionKrigingEngine \<Rightarrow> (nat \<Rightarrow> string) \<Rightarrow> string \<Rightarrow> real \<times> real \<times> real \<times> real
     \<Rightarrow> pydict list \<Rightarrow> (real \<Rightarrow> real \<Rightarrow> real) option \<Rightarrow> int \<Rightarrow> py_error + KrigingCell list" where
  "generate_virtual_grid eng clock fid field_bounds sensor_measurements satellite_trend depth =
     (case field_bounds of (min_lat, min_lon, max_lat, max_lon) \<Rightarrow>
      case grid_dims eng field_bounds of Inl e \<Rightarrow> Inl e | Inr (n_lat, n_lon) \<Rightarrow>
      case sensor_arrays sensor_measurements depth of Inl e \<Rightarrow> Inl e | Inr found \<Rightarrow>
        if length found < 3 then
          fallback_interpolation clock fid min_lat min_lon max_lat max_lon n_lat n_lon
            sensor_measurements depth
        else
          case as_numbers found of Inl e \<Rightarrow> Inl e | Inr sensors \<Rightarrow>
          case linspace min_lat max_lat n_lat of Inl e \<Rightarrow> Inl e | Inr lat_grid \<Rightarrow>
          case linspace min_lon max_lon n_lon of Inl e \<Rightarrow> Inl e | Inr lon_grid \<Rightarrow>
            Inr (hashed_cells clock
                   (kriging_cell eng fid depth sensors satellite_trend
                      (xp_linalg_inv eng (build_kriging_system eng (map s_coord sensors))))
                   (grid_points lat_grid lon_grid)))"




definition point_field :: "real \<times> real \<times> real \<times> real" where
  "point_field = (37.5, - 105.8, 37.5, - 105.8)"

definition unnamed_probes :: "pydict list" where
  "unnamed_probes =
     [[(''depth_inches'', JInt 18), (''latitude'', JFloat 37.6), (''longitude'', JFloat (- 105.8)),
       (''vwc'', JFloat 0.1)],
      [(''depth_inches'', JInt 18), (''latitude'', JFloat 37.5), (''longitude'', JFloat (- 105.8)),
       (''vwc'', JFloat 0.3)],
      [(''sensor_id'', JStr ''s3''), (''depth_inches'', JInt 18), (''latitude'', JFloat 37.55),
       (''longitude'', JFloat (- 105.75)), (''vwc'', JFloat 0.2)]]"


definition unnamed_anchor_cell :: KrigingCell where
  "unnamed_anchor_cell =
     \<lparr>cell_id = ''f1_18in_00000'', field_id = ''f1'', latitude = 37.5,
      longitude = - 105.8, depth_inches = 18, estimated_vwc = 0.1,
      estimation_variance = PyFloat 0, confidence = 1, is_hard_anchor = True,
      anchor_sensor_id = JStr ''unknown'', satellite_trend_value = None, cell_hash = None\<rparr>"

section \<open>Properties of chain verification\<close>

text \<open>
  The run of the ingest path used below: sensor \<open>s1\<close>, depth 18, VWC 0.25, soil
  temperature 15.4, no water potential, chained to the genesis hash. The two canonical
  strings are the one that \<open>create_measurement_with_integrity\<close> hashes and the one
  that \<open>verify_chain_integrity\<close> hashes for the dictionary that came back.
\<close>

lemma round_sample_vwc: "jround (JFloat 0.25) 6 = Inr (JFloat 0.25)"
  by (simp add: py_round_def round_half_even_def round_pick_def)

lemma canonical_created:
  "json_dumps_canonical
     (measurement_data (JStr ''s1'') (JStr ''2024-01-01T00:00:00'') (JInt 18) (JFloat 0.25)
        (JStr genesis_hash)
        (Some [(''soil_temp_c'', opt_float (Some 15.4)), (''water_potential'', opt_float None)]))
   = ''{\"depth_inches\":18,\"previous_hash\":\"0000000000000000000000000000000000000000000000000000000000000000\",\"sensor_id\":\"s1\",\"soil_temp_c\":15.4,\"timestamp\":\"2024-01-01T00:00:00\",\"vwc\":0.25,\"water_potential\":null}''"
  by code_simp

lemma canonical_verified:
  "json_dumps_canonical
     (measurement_data (JStr ''s1'') (JStr ''2024-01-01T00:00:00'') (JInt 18) (JFloat 0.25)
        (JStr genesis_hash) (Some sample_measurement))
   = ''{\"depth_inches\":18,\"previous_hash\":\"0000000000000000000000000000000000000000000000000000000000000000\",\"sensor_id\":\"s1\",\"signal_quality\":1.0,\"timestamp\":\"2024-01-01T00:00:00\",\"vwc\":0.25}''"
  by code_simp

lemma digest_created:
  "sha256_hex ''{\"depth_inches\":18,\"previous_hash\":\"0000000000000000000000000000000000000000000000000000000000000000\",\"sensor_id\":\"s1\",\"soil_temp_c\":15.4,\"timestamp\":\"2024-01-01T00:00:00\",\"vwc\":0.25,\"water_potential\":null}''
   = ''75607d75eb4295b4f1c6c51fad6411639cbad01538fafb264000265eb074615c''"
  by code_simp

lemma digest_verified:
  "sha256_hex ''{\"depth_inches\":18,\"previous_hash\":\"0000000000000000000000000000000000000000000000000000000000000000\",\"sensor_id\":\"s1\",\"signal_quality\":1.0,\"timestamp\":\"2024-01-01T00:00:00\",\"vwc\":0.25}''
   = ''3d1b0d93b2b663350753bb6627e057f457d80cba476c8147ba8b20e7081fc37a''"
  by code_simp

lemma hash_created:
  "hash_measurement (JStr ''s1'') (JStr ''2024-01-01T00:00:00'') (JInt 18) (JFloat 0.25)
     (JStr genesis_hash)
     (Some [(''soil_temp_c'', opt_float (Some 15.4)), (''water_potential'', opt_float None)])
   = Inr ''75607d75eb4295b4f1c6c51fad6411639cbad01538fafb264000265eb074615c''"
  unfolding hash_measurement_def round_sample_vwc sum.case canonical_created digest_created
  by (rule refl)

lemma hash_verified:
  "hash_measurement (JStr ''s1'') (JStr ''2024-01-01T00:00:00'') (JInt 18) (JFloat 0.25)
     (JStr genesis_hash) (Some sample_measurement)
   = Inr ''3d1b0d93b2b663350753bb6627e057f457d80cba476c8147ba8b20e7081fc37a''"
  unfolding hash_measurement_def round_sample_vwc sum.case canonical_verified digest_verified
  by (rule refl)

lemma sample_fields:
  "dict_get_default sample_measurement ''sensor_id'' (JStr ''unknown'') = JStr ''s1''"
  "dict_get_default sample_measurement ''timestamp'' empty_str = JStr ''2024-01-01T00:00:00''"
  "dict_get_default sample_measurement ''depth_inches'' (JInt 0) = JInt 18"
  "dict_get_default sample_measurement ''volumetric_water_content'' (JFloat 0) = JFloat 0.25"
  "dict_get_default sample_measurement ''measurement_hash'' empty_str
     = JStr ''75607d75eb4295b4f1c6c51fad6411639cbad01538fafb264000265eb074615c''"
  "dict_get_default sample_measurement ''timestamp'' JNull = JStr ''2024-01-01T00:00:00''"
  "dict_get_default sample_measurement ''sensor_id'' JNull = JStr ''s1''"
  by (simp_all add: dict_get_default_def sample_measurement_def)

lemma created_sample:
  "create_measurement_with_integrity ''2024-01-01T00:00:00'' ''s1'' 18 0.25 genesis_hash
     (Some 15.4) None None = Inr sample_measurement"
  unfolding create_measurement_with_integrity_def hash_created sum.case
  by (simp add: sign_hash_def sample_measurement_def opt_float_def)

lemma verify_loop_sample:
  "verify_loop [sample_measurement] genesis_hash []
   = Inr (''3d1b0d93b2b663350753bb6627e057f457d80cba476c8147ba8b20e7081fc37a'',
          [\<lparr>vr_timestamp = JStr ''2024-01-01T00:00:00'', vr_sensor_id = JStr ''s1'',
            computed_hash = ''3d1b0d93b2b663350753bb6627e057f457d80cba476c8147ba8b20e7081fc37a'',
            stored_hash = JStr ''75607d75eb4295b4f1c6c51fad6411639cbad01538fafb264000265eb074615c'',
            hash_valid = False, chain_valid = False\<rparr>])"
  unfolding verify_loop.simps sample_fields hash_verified sum.case
  by simp

text \<open>
  C1 on the code, for a chain of one measurement. \<open>create_measurement_with_integrity\<close>
  returns the dictionary \<open>sample_measurement\<close>, whose own hash covers the keys
  \<open>soil_temp_c\<close> and \<open>water_potential\<close>. \<open>verify_chain_integrity\<close>, given that
  dictionary, the genesis hash and that own hash, recomputes the hash over
  \<open>signal_quality\<close> instead (the dictionary stores the two readings under
  \<open>soil_temperature_c\<close> and \<open>soil_water_potential\<close>, which the hasher does not copy),
  gets another digest, and reports \<open>valid = False\<close> with no valid hash.
\<close>

theorem verify_chain_rejects_ingested:
  "create_measurement_with_integrity ''2024-01-01T00:00:00'' ''s1'' 18 0.25 genesis_hash
     (Some 15.4) None None = Inr sample_measurement
   \<and> verify_chain_integrity ''2024-01-01T00:15:00'' [sample_measurement] genesis_hash
       ''75607d75eb4295b4f1c6c51fad6411639cbad01538fafb264000265eb074615c''
     = Inr \<lparr>valid = False, error = None, chain_length = 1, valid_hashes = Some 0,
            expected_final_hash =
              Some ''75607d75eb4295b4f1c6c51fad6411639cbad01538fafb264000265eb074615c'',
            computed_final_hash =
              Some ''3d1b0d93b2b663350753bb6627e057f457d80cba476c8147ba8b20e7081fc37a'',
            chain_intact = Some False,
            verification_time = Some ''2024-01-01T00:15:00''\<rparr>"
proof -
  have v: "verify_chain_integrity ''2024-01-01T00:15:00'' [sample_measurement] genesis_hash
       ''75607d75eb4295b4f1c6c51fad6411639cbad01538fafb264000265eb074615c''
     = Inr \<lparr>valid = False, error = None, chain_length = 1, valid_hashes = Some 0,
            expected_final_hash =
              Some ''75607d75eb4295b4f1c6c51fad6411639cbad01538fafb264000265eb074615c'',
            computed_final_hash =
              Some ''3d1b0d93b2b663350753bb6627e057f457d80cba476c8147ba8b20e7081fc37a'',
            chain_intact = Some False,
            verification_time = Some ''2024-01-01T00:15:00''\<rparr>"
    unfolding verify_chain_integrity_def verify_loop_sample
    by simp
  show ?thesis
    using created_sample v by blast
qed

section \<open>Properties of the irrigation controller\<close>

lemma map_of_dict_set:
  "map_of (dict_set d k v) k' = (if k' = k then Some v else map_of d k')"
  by (induction d) auto

lemma deep_risk_count_pos:
  "(0 < length (filter P (filter Q xs))) = (\<exists>x\<in>set xs. Q x \<and> P x)"
  by (auto simp: filter_empty_conv)

lemma duration_of_deficit_bounds:
  "0 \<le> x \<Longrightarrow> 0 \<le> duration_of_deficit x \<and> duration_of_deficit x \<le> 120"
  by (simp add: duration_of_deficit_def py_int_def)

lemma grid_confidence_bounds:
  "1 / 2 \<le> grid_confidence vs a \<and> grid_confidence vs a \<le> 1"
proof -
  define s where "s = sum_list (map (\<lambda>v. (v - a) ^ 2) vs) / real (length vs)"
  have "0 \<le> sum_list (map (\<lambda>v. (v - a) ^ 2) vs)"
    by (rule sum_list_nonneg) auto
  then have "0 \<le> s"
    by (simp add: s_def)
  then have bounds: "1 / 2 \<le> max (1 / 2) (1 - s * 10) \<and> max (1 / 2) (1 - s * 10) \<le> 1"
    by simp
  show ?thesis
  proof (cases "1 < length vs")
    case True
    then have eq: "grid_confidence vs a = max (1 / 2) (1 - s * 10)"
      by (simp add: grid_confidence_def s_def)
    show ?thesis
      unfolding eq using bounds by blast
  next
    case False
    then show ?thesis
      by (simp add: grid_confidence_def)
  qed
qed

lemma analyze_deep_cell_no_logger:
  "analyze_zone_for_irrigation (VRIController_init None) ''2024-01-01T00:00:00''
     ''f1_zone1'' ''f1''
     [(sample_cell ''f1_42in_00000'' 42 0.5)]
     sample_soil ''potato''
   = (VRIController_init None,
      \<lparr>d_zone_id = ''f1_zone1'', d_field_id = ''f1'', current_avg_vwc = 0.5,
       target_vwc = 0.225, d_field_capacity = 0.25, d_wilting_point = 0.08,
       status = DEEP_PERCOLATION_RISK, recommended_duration_minutes = 0,
       d_confidence = 0.5, grid_cell_count = 1, cells_below_target = 0,
       cells_above_fc = 1, cells_at_risk = 1, max_duration_minutes = 120,
       d_timestamp = ''2024-01-01T00:00:00''\<rparr>)"
  by (simp add: analyze_zone_for_irrigation_def VRIController_init_def Let_def
      dict_get_default_def grid_confidence_def sample_cell_def sample_soil_def)

text \<open>
  C3, as stated, on a controller built without an audit logger (the constructor's
  default): the status is the deep-percolation one, but the controller that comes back
  still has no logger, so no audit event was emitted.
\<close>

theorem deep_percolation_no_logger_counterexample:
  "status (snd (analyze_zone_for_irrigation (VRIController_init None) ''2024-01-01T00:00:00''
     ''f1_zone1'' ''f1''
     [(sample_cell ''f1_42in_00000'' 42 0.5)]
     sample_soil ''potato''))
     = DEEP_PERCOLATION_RISK
   \<and> audit_logger (fst (analyze_zone_for_irrigation (VRIController_init None)
     ''2024-01-01T00:00:00'' ''f1_zone1'' ''f1''
     [(sample_cell ''f1_42in_00000'' 42 0.5)]
     sample_soil ''potato'')) = None"
  unfolding analyze_deep_cell_no_logger by (simp add: VRIController_init_def)

text \<open>
  C3, amended: for every list of grid cells given to \<open>analyze_zone_for_irrigation\<close>, if
  some cell at depth at least 42 inches has estimated VWC above the controller's
  deep-percolation threshold (0.42 as constructed), the status of the returned decision
  is \<open>DEEP_PERCOLATION_RISK\<close> whatever the saturation and recommendation conditions
  are; and when the controller has an audit logger, exactly one event of type
  \<open>deep_percolation_alert\<close> by user \<open>system\<close> is appended to it, while a controller
  without a logger stays without one.
\<close>

theorem deep_percolation_first_match:
  assumes "\<exists>c\<in>set grid_cells.
             42 \<le> depth_inches c \<and> deep_percolation_threshold ctl < estimated_vwc c"
  shows "status (snd (analyze_zone_for_irrigation ctl now zid fid grid_cells soil crop))
           = DEEP_PERCOLATION_RISK
         \<and> (case audit_logger ctl of
               None \<Rightarrow>
                 audit_logger (fst (analyze_zone_for_irrigation ctl now zid fid grid_cells
                                      soil crop)) = None
             | Some logger \<Rightarrow>
                 (\<exists>dets. audit_logger (fst (analyze_zone_for_irrigation ctl now zid fid
                                               grid_cells soil crop))
                    = Some (logger @ [\<lparr>event_type = ''deep_percolation_alert'',
                                         user_id = ''system'', details = dets\<rparr>])))"
proof -
  from assms have ne: "grid_cells \<noteq> []"
    by auto
  from assms have risk:
    "0 < length (filter (\<lambda>c. deep_percolation_threshold ctl < estimated_vwc c)
                   (filter (\<lambda>c. 42 \<le> depth_inches c) grid_cells))"
    unfolding deep_risk_count_pos by blast
  show ?thesis
    using ne risk
    by (simp add: analyze_zone_for_irrigation_def Let_def log_event_def
        split: option.split)
qed

theorem deep_percolation_first_match_witness:
  "(\<exists>c\<in>set [(sample_cell ''f1_42in_00000'' 42 0.5)].
      42 \<le> depth_inches c
      \<and> deep_percolation_threshold (VRIController_init (Some [])) < estimated_vwc c)
   \<and> status (snd (analyze_zone_for_irrigation (VRIController_init (Some []))
        ''2024-01-01T00:00:00'' ''f1_zone1'' ''f1''
        [(sample_cell ''f1_42in_00000'' 42 0.5)]
        sample_soil ''potato''))
      = DEEP_PERCOLATION_RISK
   \<and> (\<exists>dets. audit_logger (fst (analyze_zone_for_irrigation (VRIController_init (Some []))
        ''2024-01-01T00:00:00'' ''f1_zone1'' ''f1''
        [(sample_cell ''f1_42in_00000'' 42 0.5)]
        sample_soil ''potato''))
      = Some [\<lparr>event_type = ''deep_percolation_alert'', user_id = ''system'',
                details = dets\<rparr>])"
proof -
  have h: "\<exists>c\<in>set [(sample_cell ''f1_42in_00000'' 42 0.5)].
      42 \<le> depth_inches c
      \<and> deep_percolation_threshold (VRIController_init (Some [])) < estimated_vwc c"
    by (simp add: VRIController_init_def sample_cell_def)
  have l: "audit_logger (VRIController_init (Some [])) = Some []"
    by (simp add: VRIController_init_def)
  show ?thesis
    using h deep_percolation_first_match [OF h, of "''2024-01-01T00:00:00''" "''f1_zone1''"
        "''f1''" "sample_soil" "''potato''"]
    by (simp add: l)
qed

text \<open>
  C5, as stated, on two one-cell grids with field capacity 0.25. A cell at VWC 0.2 is
  recommended for 37 minutes with confidence 0.5, not above 0.7; a cell at VWC 0.2249 is
  recommended with duration 0.
\<close>

theorem recommended_not_fireable_counterexample:
  "status (snd (analyze_zone_for_irrigation (VRIController_init None) ''2024-01-01T00:00:00''
     ''f1_zone1'' ''f1''
     [(sample_cell ''f1_18in_00000'' 18 0.2)]
     sample_soil ''potato''))
     = IRRIGATION_RECOMMENDED
   \<and> d_confidence (snd (analyze_zone_for_irrigation (VRIController_init None)
     ''2024-01-01T00:00:00'' ''f1_zone1'' ''f1''
     [(sample_cell ''f1_18in_00000'' 18 0.2)]
     sample_soil ''potato'')) = 0.5
   \<and> status (snd (analyze_zone_for_irrigation (VRIController_init None)
     ''2024-01-01T00:00:00'' ''f1_zone1'' ''f1''
     [(sample_cell ''f1_18in_00000'' 18 0.2249)]
     sample_soil ''potato''))
     = IRRIGATION_RECOMMENDED
   \<and> recommended_duration_minutes (snd (analyze_zone_for_irrigation (VRIController_init None)
     ''2024-01-01T00:00:00'' ''f1_zone1'' ''f1''
     [(sample_cell ''f1_18in_00000'' 18 0.2249)]
     sample_soil ''potato'')) = 0"
  by (simp add: analyze_zone_for_irrigation_def VRIController_init_def Let_def
      dict_get_default_def grid_confidence_def duration_of_deficit_def py_int_def
      sample_cell_def sample_soil_def)

text \<open>
  C5, amended: every decision returned by \<open>analyze_zone_for_irrigation\<close> with status
  \<open>RECOMMENDED\<close> has a recommended duration from 0 to 120 minutes and a confidence from
  0.5 to 1; the decisions that \<open>should_irrigate\<close> lets through (the fireable ones) have a
  duration strictly above 0 and at most 120 and a confidence strictly above 0.7.
\<close>

theorem recommended_bounds:
  "(status (snd (analyze_zone_for_irrigation ctl now zid fid grid_cells soil crop))
      = IRRIGATION_RECOMMENDED \<longrightarrow>
      0 \<le> recommended_duration_minutes
             (snd (analyze_zone_for_irrigation ctl now zid fid grid_cells soil crop))
      \<and> recommended_duration_minutes
             (snd (analyze_zone_for_irrigation ctl now zid fid grid_cells soil crop)) \<le> 120
      \<and> 1 / 2 \<le> d_confidence
             (snd (analyze_zone_for_irrigation ctl now zid fid grid_cells soil crop))
      \<and> d_confidence
             (snd (analyze_zone_for_irrigation ctl now zid fid grid_cells soil crop)) \<le> 1)
   \<and> (should_irrigate (snd (analyze_zone_for_irrigation ctl now zid fid grid_cells soil crop))
      \<longrightarrow>
      0 < recommended_duration_minutes
             (snd (analyze_zone_for_irrigation ctl now zid fid grid_cells soil crop))
      \<and> recommended_duration_minutes
             (snd (analyze_zone_for_irrigation ctl now zid fid grid_cells soil crop)) \<le> 120
      \<and> 0.7 < d_confidence
             (snd (analyze_zone_for_irrigation ctl now zid fid grid_cells soil crop)))"
proof (cases "grid_cells = []")
  case True
  then show ?thesis
    by (simp add: analyze_zone_for_irrigation_def should_irrigate_def)
next
  case False
  define d where "d = snd (analyze_zone_for_irrigation ctl now zid fid grid_cells soil crop)"
  define vs where "vs = map estimated_vwc grid_cells"
  define avg where "avg = sum_list vs / real (length vs)"
  define target where "target = dict_get_default soil ''field_capacity'' 0.25 * 0.9"
  have conf: "d_confidence d = grid_confidence vs avg"
    using False by (simp add: d_def vs_def avg_def analyze_zone_for_irrigation_def Let_def)
  have dur: "status d = IRRIGATION_RECOMMENDED \<Longrightarrow>
               recommended_duration_minutes d = duration_of_deficit (target - avg)
               \<and> avg < target"
    using False
    by (simp add: d_def vs_def avg_def target_def analyze_zone_for_irrigation_def Let_def
        split: if_splits)
  have rec: "status d = IRRIGATION_RECOMMENDED \<Longrightarrow>
               0 \<le> recommended_duration_minutes d \<and> recommended_duration_minutes d \<le> 120"
    using dur duration_of_deficit_bounds [of "target - avg"] by simp
  have "(status d = IRRIGATION_RECOMMENDED \<longrightarrow>
           0 \<le> recommended_duration_minutes d \<and> recommended_duration_minutes d \<le> 120
           \<and> 1 / 2 \<le> d_confidence d \<and> d_confidence d \<le> 1)
        \<and> (should_irrigate d \<longrightarrow>
           0 < recommended_duration_minutes d \<and> recommended_duration_minutes d \<le> 120
           \<and> 0.7 < d_confidence d)"
    using rec conf grid_confidence_bounds [of vs avg]
    by (auto simp: should_irrigate_def)
  then show ?thesis
    by (simp add: d_def)
qed

theorem recommended_bounds_witness:
  "should_irrigate (snd (analyze_zone_for_irrigation (VRIController_init None)
     ''2024-01-01T00:00:00'' ''f1_zone1'' ''f1''
     [(sample_cell ''f1_18in_00000'' 18 0.2),
      (sample_cell ''f1_18in_00001'' 18 0.2)]
     sample_soil ''potato''))
   \<and> status (snd (analyze_zone_for_irrigation (VRIController_init None)
     ''2024-01-01T00:00:00'' ''f1_zone1'' ''f1''
     [(sample_cell ''f1_18in_00000'' 18 0.2),
      (sample_cell ''f1_18in_00001'' 18 0.2)]
     sample_soil ''potato''))
     = IRRIGATION_RECOMMENDED
   \<and> 0 < recommended_duration_minutes (snd (analyze_zone_for_irrigation
     (VRIController_init None) ''2024-01-01T00:00:00'' ''f1_zone1'' ''f1''
     [(sample_cell ''f1_18in_00000'' 18 0.2),
      (sample_cell ''f1_18in_00001'' 18 0.2)]
     sample_soil ''potato''))
   \<and> recommended_duration_minutes (snd (analyze_zone_for_irrigation
     (VRIController_init None) ''2024-01-01T00:00:00'' ''f1_zone1'' ''f1''
     [(sample_cell ''f1_18in_00000'' 18 0.2),
      (sample_cell ''f1_18in_00001'' 18 0.2)]
     sample_soil ''potato'')) \<le> 120"
proof -
  have fire: "should_irrigate (snd (analyze_zone_for_irrigation (VRIController_init None)
     ''2024-01-01T00:00:00'' ''f1_zone1'' ''f1''
     [(sample_cell ''f1_18in_00000'' 18 0.2),
      (sample_cell ''f1_18in_00001'' 18 0.2)]
     sample_soil ''potato''))"
    by (simp add: analyze_zone_for_irrigation_def VRIController_init_def Let_def
        dict_get_default_def grid_confidence_def duration_of_deficit_def py_int_def
        should_irrigate_def sample_cell_def sample_soil_def)
  show ?thesis
    using fire recommended_bounds [of "VRIController_init None" "''2024-01-01T00:00:00''"
        "''f1_zone1''" "''f1''"
        "[(sample_cell ''f1_18in_00000'' 18 0.2),
          (sample_cell ''f1_18in_00001'' 18 0.2)]"
        "sample_soil" "''potato''"]
    by (simp add: should_irrigate_def)
qed

section \<open>Properties of the emergency stop\<close>

lemma stop_loop_logger:
  "fst (stop_loop items uid logger valves)
     = (case logger of None \<Rightarrow> None | Some l \<Rightarrow> Some (l @ map (stop_event uid) items))"
  by (induction items arbitrary: logger valves) (auto split: option.splits)

lemma stop_loop_keeps_closed:
  "map_of valves k = Some CLOSED \<Longrightarrow>
   map_of (snd (stop_loop items uid logger valves)) k = Some CLOSED"
  by (induction items arbitrary: logger valves) (auto simp: map_of_dict_set)

lemma stop_loop_closes:
  "item \<in> set items \<Longrightarrow>
   map_of (snd (stop_loop items uid logger valves)) (valve_id (snd item)) = Some CLOSED"
proof (induction items arbitrary: logger valves)
  case Nil
  then show ?case by simp
next
  case (Cons first rest)
  show ?case
  proof (cases "item = first")
    case True
    then show ?thesis
      by (simp add: stop_loop_keeps_closed map_of_dict_set)
  next
    case False
    with Cons.prems have "item \<in> set rest"
      by simp
    then show ?thesis
      by (simp add: Cons.IH)
  qed
qed

lemma open_decision_fires: "should_irrigate open_decision"
  by (simp add: open_decision_def analyze_zone_for_irrigation_def VRIController_init_def
      Let_def dict_get_default_def grid_confidence_def duration_of_deficit_def py_int_def
      should_irrigate_def sample_cell_def sample_soil_def)

lemma idle_decision_idle: "\<not> should_irrigate idle_decision"
  by (simp add: idle_decision_def analyze_zone_for_irrigation_def VRIController_init_def
      Let_def dict_get_default_def grid_confidence_def
      should_irrigate_def sample_cell_def sample_soil_def)

lemma decision_zone:
  "d_zone_id open_decision = ''f1_zone1''" "d_zone_id idle_decision = ''f1_zone1''"
  by (simp_all add: open_decision_def idle_decision_def analyze_zone_for_irrigation_def
      Let_def sample_cell_def)

lemma one_zone_open_state:
  "valve_states one_zone_open = [(''valve_1'', OPEN)]"
  "map fst (active_irrigation one_zone_open) = [''f1_zone1'']"
  "map (valve_id \<circ> snd) (active_irrigation one_zone_open) = [''valve_1'']"
  "audit_logger one_zone_open = Some []"
  by (simp_all add: one_zone_open_def execute_irrigation_decision_def open_decision_fires
      decision_zone VRIController_init_def dict_get_default_def)

lemma remapped_open_state:
  "valve_states remapped_open = [(''valve_1'', OPEN), (''valve_2'', OPEN)]"
  "map fst (active_irrigation remapped_open) = [''f1_zone1'']"
  "map (valve_id \<circ> snd) (active_irrigation remapped_open) = [''valve_2'']"
  "audit_logger remapped_open = Some []"
proof -
  obtain info where act: "active_irrigation one_zone_open = [(''f1_zone1'', info)]"
    using one_zone_open_state(2) by (cases "active_irrigation one_zone_open") auto
  show "valve_states remapped_open = [(''valve_1'', OPEN), (''valve_2'', OPEN)]"
    "map fst (active_irrigation remapped_open) = [''f1_zone1'']"
    "map (valve_id \<circ> snd) (active_irrigation remapped_open) = [''valve_2'']"
    "audit_logger remapped_open = Some []"
    by (simp_all add: remapped_open_def execute_irrigation_decision_def open_decision_fires
        decision_zone one_zone_open_state act dict_get_default_def)
qed

lemma stale_open_valve_state:
  "valve_states stale_open_valve
     = [(''valve_1'', OPEN), (''valve_2'', CLOSED), (''valve_9'', MANUAL_OVERRIDE)]"
  "active_irrigation stale_open_valve = []"
  "map event_type (case audit_logger stale_open_valve of None \<Rightarrow> [] | Some l \<Rightarrow> l)
     = [''irrigation_override'']"
proof -
  obtain info where act: "active_irrigation remapped_open = [(''f1_zone1'', info)]"
    using remapped_open_state(2) by (cases "active_irrigation remapped_open") auto
  show "valve_states stale_open_valve
     = [(''valve_1'', OPEN), (''valve_2'', CLOSED), (''valve_9'', MANUAL_OVERRIDE)]"
    "active_irrigation stale_open_valve = []"
    "map event_type (case audit_logger stale_open_valve of None \<Rightarrow> [] | Some l \<Rightarrow> l)
     = [''irrigation_override'']"
    by (simp_all add: stale_open_valve_def execute_irrigation_decision_def idle_decision_idle
        decision_zone remapped_open_state act dict_get_default_def dict_del_def
        manual_override_def log_irrigation_override_def log_event_def)
qed

text \<open>
  C4, as stated, on the controller reached by the run \<open>stale_open_valve\<close>, whose audit
  logger is configured: before the stop \<open>valve_1\<close> is in state \<open>OPEN\<close> and no zone is in
  the active-irrigation set. After \<open>emergency_stop_all\<close> that valve is still \<open>OPEN\<close>, the
  valve opened by manual override is still in state \<open>MANUAL_OVERRIDE\<close>, and the audit
  log is what it was: no event was logged for the stop.
\<close>

theorem emergency_stop_leaves_open_counterexample:
  "map_of (valve_states stale_open_valve) ''valve_1'' = Some OPEN
   \<and> map_of (valve_states (emergency_stop_all stale_open_valve ''system'')) ''valve_1''
       = Some OPEN
   \<and> map_of (valve_states (emergency_stop_all stale_open_valve ''system'')) ''valve_9''
       = Some MANUAL_OVERRIDE
   \<and> audit_logger (emergency_stop_all stale_open_valve ''system'')
       = audit_logger stale_open_valve"
  by (simp add: emergency_stop_all_def stale_open_valve_state)

text \<open>
  C4, amended: after \<open>emergency_stop_all\<close> returns, no zone remains in the
  active-irrigation set, every valve named by an entry of that set is in state
  \<open>CLOSED\<close>, and, when the controller has an audit logger, one \<open>emergency_stop\<close> event
  per entry of the set has been appended to the log, in the order of the entries (none
  when the set was empty; a controller without a logger logs nothing).
\<close>

theorem emergency_stop_all_tracked:
  "active_irrigation (emergency_stop_all ctl uid) = []
   \<and> (\<forall>item\<in>set (active_irrigation ctl).
         map_of (valve_states (emergency_stop_all ctl uid)) (valve_id (snd item))
           = Some CLOSED)
   \<and> audit_logger (emergency_stop_all ctl uid)
       = (case audit_logger ctl of
            None \<Rightarrow> None
          | Some l \<Rightarrow> Some (l @ map (stop_event uid) (active_irrigation ctl)))"
proof -
  have st: "emergency_stop_all ctl uid
      = ctl\<lparr>audit_logger :=
               fst (stop_loop (active_irrigation ctl) uid (audit_logger ctl) (valve_states ctl)),
             valve_states :=
               snd (stop_loop (active_irrigation ctl) uid (audit_logger ctl) (valve_states ctl)),
             active_irrigation := []\<rparr>"
    by (simp add: emergency_stop_all_def case_prod_beta)
  show ?thesis
    unfolding st by (simp add: stop_loop_logger stop_loop_closes)
qed

theorem emergency_stop_all_tracked_witness:
  "map (valve_id \<circ> snd) (active_irrigation remapped_open) = [''valve_2'']
   \<and> active_irrigation (emergency_stop_all remapped_open ''system'') = []
   \<and> map_of (valve_states (emergency_stop_all remapped_open ''system'')) ''valve_2''
       = Some CLOSED
   \<and> map event_type
        (case audit_logger (emergency_stop_all remapped_open ''system'') of
           None \<Rightarrow> [] | Some l \<Rightarrow> l) = [''emergency_stop'']"
proof -
  obtain info where act: "active_irrigation remapped_open = [(''f1_zone1'', info)]"
    using remapped_open_state(2) by (cases "active_irrigation remapped_open") auto
  have vid: "valve_id info = ''valve_2''"
    using remapped_open_state(3) by (simp add: act)
  show ?thesis
    using emergency_stop_all_tracked [of remapped_open "''system''"]
    by (simp add: act vid remapped_open_state(4) stop_event_def)
qed

section \<open>Properties of the Bayesian filter\<close>

lemma soil_invariant_init: "soil_invariant (SoilCoefficients_init z)"
  by (simp add: soil_invariant_def SoilCoefficients_init_def)

lemma shift_texture_nonneg:
  assumes "soil_invariant c" and "0 \<le> lr"
  shows "0 \<le> sand_ratio (shift_texture c residual lr)"
    and "0 \<le> silt_ratio (shift_texture c residual lr)"
    and "0 \<le> clay_ratio (shift_texture c residual lr)"
    and "0 < sand_ratio (shift_texture c residual lr) + silt_ratio (shift_texture c residual lr)
              + clay_ratio (shift_texture c residual lr)"
proof -
  from assms(1) have s: "0 \<le> sand_ratio c" and t: "0 \<le> silt_ratio c"
    and k: "0 \<le> clay_ratio c"
    by (simp_all add: soil_invariant_def)
  from assms(2) have d: "0 \<le> lr * 0.05"
    by simp
  have all: "0 \<le> sand_ratio (shift_texture c residual lr)
      \<and> 0 \<le> silt_ratio (shift_texture c residual lr)
      \<and> 0 \<le> clay_ratio (shift_texture c residual lr)
      \<and> 0 < sand_ratio (shift_texture c residual lr)
              + silt_ratio (shift_texture c residual lr)
              + clay_ratio (shift_texture c residual lr)"
  proof (cases "0 < residual")
    case True
    then have sh: "sand_ratio (shift_texture c residual lr) = max 0.1 (sand_ratio c - lr * 0.05)"
      "silt_ratio (shift_texture c residual lr) = silt_ratio c"
      "clay_ratio (shift_texture c residual lr) = min 0.6 (clay_ratio c + lr * 0.05)"
      by (simp_all add: shift_texture_def)
    have a: "(0.1::real) \<le> max 0.1 (sand_ratio c - lr * 0.05)"
      by (rule max.cobounded1)
    have "(0::real) \<le> 0.6" and "0 \<le> clay_ratio c + lr * 0.05"
      using k d by simp_all
    then have b: "0 \<le> min 0.6 (clay_ratio c + lr * 0.05)"
      by (rule min.boundedI)
    show ?thesis
      unfolding sh using a b t by linarith
  next
    case False
    then have sh: "sand_ratio (shift_texture c residual lr) = min 0.8 (sand_ratio c + lr * 0.05)"
      "silt_ratio (shift_texture c residual lr) = silt_ratio c"
      "clay_ratio (shift_texture c residual lr) = max 0.1 (clay_ratio c - lr * 0.05)"
      by (simp_all add: shift_texture_def)
    have a: "(0.1::real) \<le> max 0.1 (clay_ratio c - lr * 0.05)"
      by (rule max.cobounded1)
    have "(0::real) \<le> 0.8" and "0 \<le> sand_ratio c + lr * 0.05"
      using s d by simp_all
    then have b: "0 \<le> min 0.8 (sand_ratio c + lr * 0.05)"
      by (rule min.boundedI)
    show ?thesis
      unfolding sh using a b t by linarith
  qed
  from all show "0 \<le> sand_ratio (shift_texture c residual lr)"
    and "0 \<le> silt_ratio (shift_texture c residual lr)"
    and "0 \<le> clay_ratio (shift_texture c residual lr)"
    and "0 < sand_ratio (shift_texture c residual lr) + silt_ratio (shift_texture c residual lr)
              + clay_ratio (shift_texture c residual lr)"
    by blast+
qed

lemma renormalize_fractions:
  assumes "0 \<le> sand_ratio c" and "0 \<le> silt_ratio c" and "0 \<le> clay_ratio c"
    and "0 < sand_ratio c + silt_ratio c + clay_ratio c"
  shows "\<exists>c1. renormalize c = Inr c1
           \<and> 0 \<le> sand_ratio c1 \<and> 0 \<le> silt_ratio c1 \<and> 0 \<le> clay_ratio c1
           \<and> sand_ratio c1 + silt_ratio c1 + clay_ratio c1 = 1"
proof -
  define total where "total = sand_ratio c + silt_ratio c + clay_ratio c"
  have pos: "0 < total"
    using assms(4) by (simp add: total_def)
  have "(sand_ratio c + silt_ratio c + clay_ratio c) / total
          = sand_ratio c / total + silt_ratio c / total + clay_ratio c / total"
    by (simp add: add_divide_distrib)
  moreover have "(sand_ratio c + silt_ratio c + clay_ratio c) / total = 1"
    using pos by (simp add: total_def)
  ultimately have one:
    "sand_ratio c / total + silt_ratio c / total + clay_ratio c / total = 1"
    by simp
  have r: "renormalize c = Inr (c\<lparr>sand_ratio := sand_ratio c / total,
                                   silt_ratio := silt_ratio c / total,
                                   clay_ratio := clay_ratio c / total\<rparr>)"
    using pos by (simp add: renormalize_def Let_def total_def)
  show ?thesis
    unfolding r using pos one assms(1-3) by simp
qed

lemma recalculated_invariant:
  assumes "0 \<le> sand_ratio c" and "0 \<le> silt_ratio c" and "0 \<le> clay_ratio c"
    and "sand_ratio c + silt_ratio c + clay_ratio c = 1"
  shows "soil_invariant ((recalculate_hydraulics c)\<lparr>update_count := n,
                           coefficient_variance := v\<rparr>)"
proof -
  have s1: "sand_ratio c \<le> 1" and k1: "clay_ratio c \<le> 1"
    using assms by linarith+
  have "0.026 + 0.005 * clay_ratio c \<le> 0.2576 - 0.002 * sand_ratio c + 0.0036 * clay_ratio c"
    using s1 k1 assms(1,3) by simp
  moreover have "0.2576 - 0.002 * sand_ratio c + 0.0036 * clay_ratio c \<le> 0.5"
    using s1 k1 assms(1,3) by simp
  moreover have "0 < 10 powr (- 0.6 + 1.3 * sand_ratio c - 0.6 * clay_ratio c) * 100"
    by simp
  ultimately show ?thesis
    using assms by (simp add: soil_invariant_def recalculate_hydraulics_def)
qed

lemma update_preserves_invariant:
  assumes "soil_invariant c" and "0 \<le> lr"
  shows "\<exists>c'. update_from_residual c residual lr = Inr c' \<and> soil_invariant c'"
proof (cases "\<bar>residual\<bar> < 0.02")
  case True
  then show ?thesis
    using assms(1) by (simp add: update_from_residual_def)
next
  case False
  from renormalize_fractions [OF shift_texture_nonneg [OF assms, of residual]]
  obtain c1 where c1: "renormalize (shift_texture c residual lr) = Inr c1"
    and fr: "0 \<le> sand_ratio c1" "0 \<le> silt_ratio c1" "0 \<le> clay_ratio c1"
      "sand_ratio c1 + silt_ratio c1 + clay_ratio c1 = 1"
    by blast
  show ?thesis
    using False c1 recalculated_invariant [OF fr]
    by (simp add: update_from_residual_def)
qed

lemma update_sequence_invariant:
  "soil_invariant c \<Longrightarrow> \<forall>u\<in>set updates. 0 \<le> snd u \<Longrightarrow>
   \<exists>c'. update_sequence c updates = Inr c' \<and> soil_invariant c'"
proof (induction updates arbitrary: c)
  case Nil
  then show ?case by simp
next
  case (Cons u rest)
  obtain residual lr where u: "u = (residual, lr)"
    by (cases u)
  with Cons.prems have "0 \<le> lr"
    by simp
  from update_preserves_invariant [OF Cons.prems(1) this, of residual]
  obtain c1 where step: "update_from_residual c residual lr = Inr c1"
    and inv: "soil_invariant c1"
    by blast
  from Cons.IH [OF inv] Cons.prems(2) obtain c' where
    "update_sequence c1 rest = Inr c'" and "soil_invariant c'"
    by auto
  then show ?case
    using u step by simp
qed

text \<open>
  C6, as stated, on one update from the defaults with residual \<open>-1\<close> and learning rate
  \<open>-1000\<close>, which \<open>update_from_residual\<close> accepts: the sand fraction becomes
  \<open>-49.67\<close>, the clay fraction \<open>50.34\<close>, the total is 1, the call returns, and the field
  capacity is 0.538164, above 0.5.
\<close>

theorem negative_learning_rate_counterexample:
  "map_sum id field_capacity
     (update_from_residual (SoilCoefficients_init ''f1'') (- 1) (- 1000)) = Inr 0.538164
   \<and> \<not> (0.538164 \<le> (0.5::real))"
  by (simp add: update_from_residual_def shift_texture_def renormalize_def
      recalculate_hydraulics_def SoilCoefficients_init_def Let_def)

text \<open>
  C6, amended: starting from the default coefficients of a zone, after any sequence of
  calls of \<open>update_from_residual\<close> whose learning rates are not negative (the
  documented range is 0.0 to 1.0) every call has returned, and the parameters satisfy
  wilting point \<open>\<le>\<close> field capacity \<open>\<le>\<close> 0.5, sand + silt + clay = 1 within
  \<open>10\<^sup>-\<^sup>9\<close> (exactly, over the reals) and \<open>K_sat > 0\<close>; and one more update with
  a learning rate that is not negative returns parameters that satisfy them again.
\<close>

theorem soil_parameters_invariant:
  assumes "\<forall>u\<in>set updates. 0 \<le> snd u"
  shows "\<exists>c. update_sequence (SoilCoefficients_init z) updates = Inr c
           \<and> wilting_point c \<le> field_capacity c \<and> field_capacity c \<le> 0.5
           \<and> \<bar>sand_ratio c + silt_ratio c + clay_ratio c - 1\<bar> \<le> 1 / 10 ^ 9
           \<and> 0 < ksat c
           \<and> (\<forall>residual lr. 0 \<le> lr \<longrightarrow>
                 (\<exists>c'. update_from_residual c residual lr = Inr c'
                    \<and> wilting_point c' \<le> field_capacity c' \<and> field_capacity c' \<le> 0.5
                    \<and> \<bar>sand_ratio c' + silt_ratio c' + clay_ratio c' - 1\<bar> \<le> 1 / 10 ^ 9
                    \<and> 0 < ksat c'))"
proof -
  from update_sequence_invariant [OF soil_invariant_init assms]
  obtain c where run: "update_sequence (SoilCoefficients_init z) updates = Inr c"
    and inv: "soil_invariant c"
    by blast
  have props: "soil_invariant x \<Longrightarrow>
      wilting_point x \<le> field_capacity x \<and> field_capacity x \<le> 0.5
      \<and> \<bar>sand_ratio x + silt_ratio x + clay_ratio x - 1\<bar> \<le> 1 / 10 ^ 9 \<and> 0 < ksat x" for x
    by (simp add: soil_invariant_def)
  have "\<exists>c'. update_from_residual c residual lr = Inr c'
          \<and> wilting_point c' \<le> field_capacity c' \<and> field_capacity c' \<le> 0.5
          \<and> \<bar>sand_ratio c' + silt_ratio c' + clay_ratio c' - 1\<bar> \<le> 1 / 10 ^ 9
          \<and> 0 < ksat c'" if "0 \<le> lr" for residual lr
    using update_preserves_invariant [OF inv that, of residual] props by blast
  then show ?thesis
    using run props [OF inv] by blast
qed

theorem soil_parameters_invariant_witness:
  "(0::real) \<le> snd (0.05::real, 0.05::real) \<and> (0::real) \<le> snd (- 0.04::real, 0.05::real)
   \<and> (\<exists>c. update_sequence (SoilCoefficients_init ''f1'') [(0.05, 0.05), (- 0.04, 0.05)] = Inr c
          \<and> wilting_point c \<le> field_capacity c \<and> field_capacity c \<le> 0.5
          \<and> \<bar>sand_ratio c + silt_ratio c + clay_ratio c - 1\<bar> \<le> 1 / 10 ^ 9
          \<and> 0 < ksat c)"
proof -
  have a: "(0::real) \<le> snd (0.05::real, 0.05::real)"
    by simp
  have b: "(0::real) \<le> snd (- 0.04::real, 0.05::real)"
    by simp
  have h: "\<forall>u\<in>set [(0.05::real, 0.05::real), (- 0.04, 0.05)]. 0 \<le> snd u"
    by simp
  show ?thesis
    using a b soil_parameters_invariant [OF h, of "''f1''"] by blast
qed

text \<open>
  C7, as stated, on a new filter: zone \<open>f1\<close>, depth 18, ET 24 mm/day, 24 hours. The
  baseline is the default field capacity 0.25. The source converts the ET loss from
  millimetres (\<open>/ 1000\<close>) and predicts 0.2356; the formula of the claim, without the
  conversion, subtracts 14.4 and ends at the wilting point 0.08.
\<close>

theorem predict_et_loss_counterexample:
  "map_sum id (predicted_vwc \<circ> snd)
     (predict (RecursiveBayesianFilter_init 0.03 0.05) ''2024-01-01T00:00:00'' ''f1''
        37.5 (- 105.8) 18 24 24 None) = Inr 0.2356
   \<and> spec_predicted_vwc (SoilCoefficients_init ''f1'') 0.25 18 24 24 = 0.08"
  by (simp add: predict_def RecursiveBayesianFilter_init_def get_or_create_coefficients_def
      SoilCoefficients_init_def baseline_of_def drainage_of_def et_fraction_def
      spec_predicted_vwc_def Let_def)

text \<open>
  C7, amended: for every zone, location, depth, ET rate and elapsed hours for which
  \<open>1 + variance\<close> is not zero, \<open>predict\<close> returns a state whose predicted VWC is the
  baseline minus ET loss minus drainage, clamped to [wilting point, 0.5], where the ET
  loss is \<open>(ET / 24 \<cdot> hours) / 1000 \<cdot> f_depth\<close> with \<open>f_depth\<close> 0.6 for depth up to 18,
  0.3 up to 36, else 0.1, the drainage is \<open>min(excess, K_sat / 100 \<cdot> hours / 24 \<cdot> 0.1)\<close>
  when the baseline exceeds the field capacity and 0 otherwise, the prediction variance
  is \<open>\<sigma>\<^sup>2 \<cdot> (1 + hours / 24)\<close>, and the confidence is \<open>1 / (1 + variance)\<close>. The baseline
  is the last cached prediction for the zone and depth, else the field capacity.
\<close>

theorem predict_postcondition:
  assumes "1 + coefficient_variance (snd (get_or_create_coefficients flt z))
                 * (1 + hours / 24) \<noteq> 0"
  shows "\<exists>flt' s. predict flt now z lat lon depth et hours texture = Inr (flt', s)
           \<and> predicted_vwc s
               = max (wilting_point (snd (get_or_create_coefficients flt z)))
                   (min 0.5
                      (baseline_of flt (snd (get_or_create_coefficients flt z))
                           (prediction_key z depth)
                         - (et / 24 * hours) / 1000
                             * (if depth \<le> 18 then 0.6 else if depth \<le> 36 then 0.3 else 0.1)
                         - (if field_capacity (snd (get_or_create_coefficients flt z))
                                 < baseline_of flt (snd (get_or_create_coefficients flt z))
                                     (prediction_key z depth)
                            then min (baseline_of flt (snd (get_or_create_coefficients flt z))
                                          (prediction_key z depth)
                                        - field_capacity (snd (get_or_create_coefficients flt z)))
                                     (ksat (snd (get_or_create_coefficients flt z)) / 100
                                        * (hours / 24) * 0.1)
                            else 0)))
           \<and> prediction_variance s
               = coefficient_variance (snd (get_or_create_coefficients flt z))
                   * (1 + hours / 24)
           \<and> ms_confidence s = 1 / (1 + prediction_variance s)"
proof -
  obtain flt1 coeffs where g: "get_or_create_coefficients flt z = (flt1, coeffs)"
    by (cases "get_or_create_coefficients flt z")
  have same: "last_predictions flt1 = last_predictions flt"
    using g by (auto simp: get_or_create_coefficients_def split: option.splits)
  have base: "baseline_of flt1 coeffs k = baseline_of flt coeffs k" for k
    by (simp add: baseline_of_def same)
  show ?thesis
    using assms
    by (simp add: predict_def g base Let_def et_fraction_def drainage_of_def)
qed

theorem predict_postcondition_witness:
  "1 + coefficient_variance
         (snd (get_or_create_coefficients (RecursiveBayesianFilter_init 0.03 0.05) ''f1''))
       * (1 + 24 / 24) \<noteq> 0
   \<and> (\<exists>flt' s. predict (RecursiveBayesianFilter_init 0.03 0.05) ''2024-01-01T00:00:00'' ''f1''
                  37.5 (- 105.8) 18 24 24 None = Inr (flt', s)
         \<and> predicted_vwc s = 0.2356
         \<and> prediction_variance s = 0.2
         \<and> ms_confidence s = 1 / (1 + prediction_variance s))"
proof -
  have c: "snd (get_or_create_coefficients (RecursiveBayesianFilter_init 0.03 0.05) ''f1'')
             = SoilCoefficients_init ''f1''"
    by (simp add: get_or_create_coefficients_def RecursiveBayesianFilter_init_def)
  have h: "1 + coefficient_variance
         (snd (get_or_create_coefficients (RecursiveBayesianFilter_init 0.03 0.05) ''f1''))
       * (1 + 24 / 24) \<noteq> 0"
    unfolding c by (simp add: SoilCoefficients_init_def)
  have b: "baseline_of (RecursiveBayesianFilter_init 0.03 0.05) (SoilCoefficients_init ''f1'') k
             = 0.25" for k
    by (simp add: baseline_of_def RecursiveBayesianFilter_init_def SoilCoefficients_init_def)
  show ?thesis
    using h predict_postcondition [OF h, of "''2024-01-01T00:00:00''" "37.5" "- 105.8" 18 24 None]
    unfolding c b by (simp add: SoilCoefficients_init_def)
qed

section \<open>Properties of the time-series store\<close>

lemma insert_measurement_success:
  assumes "insert_measurement st now m = Inr st'"
  shows "\<exists>row mh. dict_index m ''measurement_hash'' = Inr mh
           \<and> r_measurement_hash row = mh
           \<and> mh \<notin> set (map r_measurement_hash (measurements st))
           \<and> st' = st\<lparr>measurements := measurements st @ [row],
                        chain_state := update_chain_state (chain_state st) mh now,
                        next_id := next_id st + 1\<rparr>"
proof -
  from assms obtain sid dep ts vwc mh ph where
      k: "dict_index m ''measurement_hash'' = Inr mh"
    and fresh: "mh \<notin> set (map r_measurement_hash (measurements st))"
    and st': "st' = st\<lparr>measurements :=
                         measurements st @ [new_row (next_id st) now m sid dep ts vwc mh ph],
                       chain_state := update_chain_state (chain_state st) mh now,
                       next_id := next_id st + 1\<rparr>"
    by (auto simp: insert_measurement_def split: sum.splits if_splits)
  have "r_measurement_hash (new_row (next_id st) now m sid dep ts vwc mh ph) = mh"
    by (simp add: new_row_def)
  with k fresh st' show ?thesis
    by blast
qed

lemma insert_measurement_duplicate:
  assumes "dict_index m ''measurement_hash'' = Inr mh"
    and "mh \<in> set (map r_measurement_hash (measurements st))"
  shows "\<exists>e. insert_measurement st now m = Inl e"
  using assms
  by (auto simp: insert_measurement_def split: sum.splits)

lemma insert_measurement_error_twice:
  assumes "insert_measurement st now m = Inl e"
  shows "\<exists>e'. insert_measurement st now' m = Inl e'"
  using assms
  by (auto simp: insert_measurement_def split: sum.splits if_splits)

lemma store_measurement_twice:
  "store_measurement (fst (store_measurement st now m)) now' m
     = (fst (store_measurement st now m), False)"
proof (cases "insert_measurement st now m")
  case (Inl e)
  then obtain e' where "insert_measurement st now' m = Inl e'"
    using insert_measurement_error_twice by blast
  with Inl show ?thesis
    by (simp add: store_measurement_def)
next
  case (Inr st')
  from insert_measurement_success [OF Inr]
  obtain row mh where mh: "dict_index m ''measurement_hash'' = Inr mh"
    and row: "r_measurement_hash row = mh"
    and st': "st' = st\<lparr>measurements := measurements st @ [row],
                        chain_state := update_chain_state (chain_state st) mh now,
                        next_id := next_id st + 1\<rparr>"
    by blast
  have "mh \<in> set (map r_measurement_hash (measurements st'))"
    by (simp add: st' row)
  from insert_measurement_duplicate [OF mh this]
  obtain e where "insert_measurement st' now' m = Inl e"
    by blast
  with Inr show ?thesis
    by (simp add: store_measurement_def)
qed

text \<open>
  C8: on a database whose chain-state row exists (\<open>_init_database\<close> creates it),
  \<open>store_measurement\<close> either returns \<open>False\<close> and leaves the database as it was, or
  returns \<open>True\<close> with exactly one new row, carrying the measurement's hash, and the
  chain-state row updated to that hash and a count one higher. A measurement whose hash
  is already stored takes the first branch. Storing the same measurement a second time
  returns \<open>False\<close> and leaves the database as the first call left it.
\<close>

theorem store_measurement_atomic:
  assumes "chain_state st = Some cs"
  shows "(store_measurement st now m = (st, False)
          \<or> (\<exists>row mh. dict_index m ''measurement_hash'' = Inr mh
                \<and> r_measurement_hash row = mh
                \<and> store_measurement st now m
                    = (st\<lparr>measurements := measurements st @ [row],
                          chain_state := Some (cs\<lparr>last_hash := mh,
                                                  total_records := total_records cs + 1,
                                                  last_updated := now\<rparr>),
                          next_id := next_id st + 1\<rparr>, True)))
         \<and> (\<forall>mh. dict_index m ''measurement_hash'' = Inr mh
                  \<and> mh \<in> set (map r_measurement_hash (measurements st))
               \<longrightarrow> store_measurement st now m = (st, False))
         \<and> store_measurement (fst (store_measurement st now m)) now' m
             = (fst (store_measurement st now m), False)"
proof -
  have first: "store_measurement st now m = (st, False)
          \<or> (\<exists>row mh. dict_index m ''measurement_hash'' = Inr mh
                \<and> r_measurement_hash row = mh
                \<and> store_measurement st now m
                    = (st\<lparr>measurements := measurements st @ [row],
                          chain_state := Some (cs\<lparr>last_hash := mh,
                                                  total_records := total_records cs + 1,
                                                  last_updated := now\<rparr>),
                          next_id := next_id st + 1\<rparr>, True))"
  proof (cases "insert_measurement st now m")
    case (Inl e)
    then show ?thesis
      by (simp add: store_measurement_def)
  next
    case (Inr st')
    from insert_measurement_success [OF Inr]
    obtain row mh where "dict_index m ''measurement_hash'' = Inr mh"
      and "r_measurement_hash row = mh"
      and "st' = st\<lparr>measurements := measurements st @ [row],
                        chain_state := update_chain_state (chain_state st) mh now,
                        next_id := next_id st + 1\<rparr>"
      by blast
    then have "dict_index m ''measurement_hash'' = Inr mh \<and> r_measurement_hash row = mh
        \<and> store_measurement st now m
            = (st\<lparr>measurements := measurements st @ [row],
                  chain_state := Some (cs\<lparr>last_hash := mh,
                                          total_records := total_records cs + 1,
                                          last_updated := now\<rparr>),
                  next_id := next_id st + 1\<rparr>, True)"
      using Inr assms by (simp add: store_measurement_def update_chain_state_def)
    then show ?thesis
      by blast
  qed
  have dup: "store_measurement st now m = (st, False)"
    if "dict_index m ''measurement_hash'' = Inr mh"
      and "mh \<in> set (map r_measurement_hash (measurements st))" for mh
  proof -
    from insert_measurement_duplicate [OF that]
    obtain e where "insert_measurement st now m = Inl e"
      by blast
    then show ?thesis
      by (simp add: store_measurement_def)
  qed
  show ?thesis
    using first dup store_measurement_twice [of st now m now'] by blast
qed

lemma store_sample_once:
  "store_measurement (TimeSeriesStore_init ''2024-01-01 00:00:00'') ''2024-01-01 00:00:05''
     sample_measurement
   = (\<lparr>measurements =
         [new_row 1 ''2024-01-01 00:00:05'' sample_measurement (JStr ''s1'') (JInt 18)
            (JStr ''2024-01-01T00:00:00'') (JFloat 0.25)
            (JStr ''75607d75eb4295b4f1c6c51fad6411639cbad01538fafb264000265eb074615c'')
            (JStr genesis_hash)],
       chain_state =
         Some \<lparr>last_hash =
                  JStr ''75607d75eb4295b4f1c6c51fad6411639cbad01538fafb264000265eb074615c'',
                total_records = 1, last_updated = ''2024-01-01 00:00:05''\<rparr>,
       next_id = 2\<rparr>, True)"
  by (simp add: store_measurement_def insert_measurement_def TimeSeriesStore_init_def
      init_database_def sample_measurement_def dict_index_def dict_get_default_def
      update_chain_state_def)

theorem store_measurement_atomic_witness:
  "chain_state (TimeSeriesStore_init ''2024-01-01 00:00:00'')
     = Some \<lparr>last_hash = JStr genesis_hash, total_records = 0,
              last_updated = ''2024-01-01 00:00:00''\<rparr>
   \<and> snd (store_measurement (TimeSeriesStore_init ''2024-01-01 00:00:00'')
            ''2024-01-01 00:00:05'' sample_measurement) = True
   \<and> store_measurement
        (fst (store_measurement (TimeSeriesStore_init ''2024-01-01 00:00:00'')
                ''2024-01-01 00:00:05'' sample_measurement))
        ''2024-01-01 00:15:05'' sample_measurement
      = (fst (store_measurement (TimeSeriesStore_init ''2024-01-01 00:00:00'')
                ''2024-01-01 00:00:05'' sample_measurement), False)"
proof -
  have h: "chain_state (TimeSeriesStore_init ''2024-01-01 00:00:00'')
     = Some \<lparr>last_hash = JStr genesis_hash, total_records = 0,
              last_updated = ''2024-01-01 00:00:00''\<rparr>"
    by (simp add: TimeSeriesStore_init_def init_database_def)
  have ok: "snd (store_measurement (TimeSeriesStore_init ''2024-01-01 00:00:00'')
            ''2024-01-01 00:00:05'' sample_measurement) = True"
    unfolding store_sample_once by simp
  show ?thesis
    using h ok store_measurement_atomic [OF h, of "''2024-01-01 00:00:05''" sample_measurement
        "''2024-01-01 00:15:05''"]
    by blast
qed

section \<open>Properties of the virtual grid\<close>

lemma first_cell_id: "make_cell_id ''f1'' 18 0 = ''f1_18in_00000''"
  by code_simp

lemma point_field_dims:
  "grid_dims (RegressionKrigingEngine_init 1 module_inv) point_field = Inr (1, 1)"
  by (simp add: grid_dims_def RegressionKrigingEngine_init_def point_field_def py_int_def)

lemma linspace_one: "linspace a b 1 = Inr [a]"
  by (simp add: linspace_def)


lemma unnamed_probes_found:
  "sensor_arrays unnamed_probes 18
   = Inr [(JFloat 37.6, JFloat (- 105.8), JFloat 0.1, JStr ''unknown''),
          (JFloat 37.5, JFloat (- 105.8), JFloat 0.3, JStr ''unknown''),
          (JFloat 37.55, JFloat (- 105.75), JFloat 0.2, JStr ''s3'')]"
  by (simp add: unnamed_probes_def py_eq_def dict_get_default_def dict_index_def)

lemma grid_with_unnamed_probes:
  "generate_virtual_grid (RegressionKrigingEngine_init 1 module_inv) clock ''f1'' point_field
     unnamed_probes None 18
   = Inr [compute_hash unnamed_anchor_cell (clock 0)]"
proof -
  have d: "grid_dims (RegressionKrigingEngine_init 1 module_inv)
             (75 / 2, - (529 / 5), 75 / 2, - (529 / 5)) = Inr (1, 1)"
    using point_field_dims [of module_inv] by (simp add: point_field_def)
  show ?thesis
    unfolding generate_virtual_grid_def point_field_def
    by (simp add: d unnamed_probes_found linspace_one grid_points_def hashed_cells_def
        kriging_cell_def s_coord_def check_sensor_location_def distance_m_def Let_def
        anchor_cell_def first_cell_id py_eq_def unnamed_anchor_cell_def)
qed

text \<open>
  The hard-anchor branch at a grid point with a probe less than 5 m away takes the
  reading of the nearest probe (the first of the nearest ones), with variance 0 and
  confidence 1, whenever no earlier probe in the list carries the same sensor id.
\<close>

lemma py_eq_refl: "py_eq v v"
  by (cases v) (simp_all add: py_eq_def)

lemma index_of_first:
  "k < length ids \<Longrightarrow> \<forall>i<k. \<not> py_eq (ids ! i) (ids ! k) \<Longrightarrow> index_of ids (ids ! k) = k"
proof (induction ids arbitrary: k)
  case Nil
  then show ?case
    by simp
next
  case (Cons x xs)
  show ?case
  proof (cases k)
    case 0
    then show ?thesis
      by (simp add: py_eq_refl)
  next
    case (Suc j)
    from Cons.prems(2) [rule_format, of 0] Suc have head: "\<not> py_eq x (xs ! j)"
      by simp
    have "\<forall>i<j. \<not> py_eq (xs ! i) (xs ! j)"
    proof (intro allI impI)
      fix i
      assume "i < j"
      with Cons.prems(2) [rule_format, of "Suc i"] Suc show "\<not> py_eq (xs ! i) (xs ! j)"
        by simp
    qed
    with Cons.IH [of j] Cons.prems(1) Suc have "index_of xs (xs ! j) = j"
      by simp
    with head Suc show ?thesis
      by simp
  qed
qed

lemma argmin_less: "xs \<noteq> [] \<Longrightarrow> argmin xs < length xs"
  by (induction xs rule: argmin.induct) auto

lemma argmin_least: "x \<in> set xs \<Longrightarrow> xs ! argmin xs \<le> x"
  by (induction xs rule: argmin.induct) auto

lemma anchor_exact_when_ids_differ:
  assumes near: "\<exists>s\<in>set sensors. distance_m p (s_coord s) < 5"
    and k: "k = argmin (map (distance_m p) (map s_coord sensors))"
    and first: "\<forall>i<k. \<not> py_eq (s_id (sensors ! i)) (s_id (sensors ! k))"
  shows "is_hard_anchor (kriging_cell eng fid depth sensors trend K_inv n p)
         \<and> estimated_vwc (kriging_cell eng fid depth sensors trend K_inv n p)
             = s_value (sensors ! k)
         \<and> estimation_variance (kriging_cell eng fid depth sensors trend K_inv n p)
             = PyFloat 0
         \<and> confidence (kriging_cell eng fid depth sensors trend K_inv n p) = 1"
proof -
  define ds where "ds = map (distance_m p) (map s_coord sensors)"
  from near obtain s where s: "s \<in> set sensors" and d: "distance_m p (s_coord s) < 5"
    by blast
  then have ne: "sensors \<noteq> []"
    by auto
  have "distance_m p (s_coord s) \<in> set ds"
    using s by (simp add: ds_def)
  then have "ds ! argmin ds \<le> distance_m p (s_coord s)"
    by (rule argmin_least)
  with d have close: "ds ! k < 5"
    by (simp add: k ds_def)
  have kl: "k < length sensors"
    using argmin_less [of ds] ne by (simp add: k ds_def)
  have "index_of (map s_id sensors) (map s_id sensors ! k) = k"
    by (rule index_of_first) (use kl first in simp_all)
  then have idx: "index_of (map s_id sensors) (s_id (sensors ! k)) = k"
    using kl by simp
  have chk: "check_sensor_location (fst p) (snd p) (map s_coord sensors) (map s_id sensors) 5
               = (True, s_id (sensors ! k))"
    using close kl by (simp add: check_sensor_location_def Let_def k ds_def)
  show ?thesis
    using kl by (simp add: kriging_cell_def chk anchor_cell_def idx)
qed

text \<open>
  C9 on the code. The field is one grid point, (37.5, -105.8), and three probes report
  at depth 18; the first two have no \<open>sensor_id\<close>, so both are collected under the id
  \<open>unknown\<close>. The second probe stands on the grid point (distance 0) and reads 0.3.
  The cell is a hard anchor with variance 0 and confidence 1, but its value is looked
  up by the id and is the reading 0.1 of the first probe, 11.1 km away.
\<close>

theorem hard_anchor_reads_first_probe_of_id:
  "generate_virtual_grid (RegressionKrigingEngine_init 1 module_inv) clock ''f1'' point_field
     unnamed_probes None 18
   = Inr [compute_hash unnamed_anchor_cell (clock 0)]
   \<and> is_hard_anchor unnamed_anchor_cell
   \<and> estimated_vwc unnamed_anchor_cell = 0.1
   \<and> map (distance_m (latitude unnamed_anchor_cell, longitude unnamed_anchor_cell))
        [(37.6, - 105.8), (37.5, - 105.8), (37.55, - 105.75)] ! 1 = 0
   \<and> map (\<lambda>m. dict_index m ''vwc'') unnamed_probes ! 1 = Inr (JFloat 0.3)"
proof -
  have rest: "is_hard_anchor unnamed_anchor_cell
   \<and> estimated_vwc unnamed_anchor_cell = 0.1
   \<and> map (distance_m (latitude unnamed_anchor_cell, longitude unnamed_anchor_cell))
        [(37.6, - 105.8), (37.5, - 105.8), (37.55, - 105.75)] ! 1 = 0
   \<and> map (\<lambda>m. dict_index m ''vwc'') unnamed_probes ! 1 = Inr (JFloat 0.3)"
    by (simp add: unnamed_anchor_cell_def distance_m_def unnamed_probes_def dict_index_def)
  show ?thesis
    using grid_with_unnamed_probes [of module_inv clock] rest by blast
qed






















section \<open>Properties of the forensic hasher\<close>

lemma hash_batch_nil: "hash_batch [] p t = Inr (p, p)"
  by (simp add: hash_batch_def)

lemma compute_merkle_root_nil: "compute_merkle_root [] = genesis_hash"
  by (simp add: compute_merkle_root_def)

text \<open>
  C10, as stated, at the previous-batch hash of a first batch: the Merkle root that
  \<open>hash_batch\<close> reports for an empty batch is then exactly what
  \<open>_compute_merkle_root\<close> returns for an empty list, so the two do not differ.
\<close>

theorem hash_batch_empty_genesis_counterexample:
  "hash_batch [] genesis_hash ''2024-01-01T00:00:00''
     = Inr (genesis_hash, compute_merkle_root [])"
  by (simp add: hash_batch_nil compute_merkle_root_nil)

text \<open>
  C10, amended: for every previous-batch hash \<open>p\<close> and timestamp \<open>t\<close>,
  \<open>hash_batch([], p, t)\<close> returns \<open>(p, p)\<close>; \<open>_compute_merkle_root([])\<close> is the genesis
  hash; the Merkle root reported for the empty batch differs from it whenever \<open>p\<close> is
  not itself the genesis hash.
\<close>

theorem hash_batch_empty:
  "hash_batch [] p t = Inr (p, p)
   \<and> compute_merkle_root [] = genesis_hash
   \<and> (p \<noteq> genesis_hash \<longrightarrow> snd (p, p) \<noteq> compute_merkle_root [])"
  by (simp add: hash_batch_nil compute_merkle_root_nil)

theorem hash_batch_empty_witness:
  "''ab12'' \<noteq> genesis_hash
   \<and> hash_batch [] ''ab12'' ''2024-01-01T00:00:00'' = Inr (''ab12'', ''ab12'')
   \<and> snd (''ab12'', ''ab12'') \<noteq> compute_merkle_root []"
proof -
  have ne: "''ab12'' \<noteq> genesis_hash"
  proof
    assume "''ab12'' = genesis_hash"
    then have "length ''ab12'' = length genesis_hash"
      by simp
    then show False
      by (simp add: genesis_hash_def)
  qed
  show ?thesis
    using ne hash_batch_empty [of "''ab12''" "''2024-01-01T00:00:00''"] by simp
qed

end
